theory Spec2Isabelle
  imports Complex_Main "HOL-Library.List_Lexorder" "HOL-Library.Char_ord"
begin

section \<open>Values shared by the modules\<close>

text \<open>
  A calendar date is represented by its proleptic Gregorian ordinal (Python's
  \<open>date.toordinal()\<close>: 0001-01-01 is day 1). Two Python \<open>date\<close> objects are equal
  exactly when their ordinals are, \<open>d + timedelta(days=n)\<close> is \<open>d + n\<close> on ordinals and
  \<open>(a - b).days\<close> is \<open>a - b\<close>. Strings are lists of 8-bit characters, so a text is a
  Python string whose code points are below 256.
\<close>

type_synonym date = int

datatype py_error =
    KeyError | ValueError | TypeError | ZeroDivisionError | OverflowError | DatabaseError

section \<open>The record store (database.py)\<close>

text \<open>
  One list per table, in row order. The timestamp columns (\<open>created_at\<close>,
  \<open>updated_at\<close>, \<open>last_active\<close>, \<open>sent_at\<close>) and the surrogate key of
  \<open>reminders_sent\<close> are left out: no function modelled here reads them. Each
  function is one committed transaction. Apart from \<open>insert_document\<close>, whose
  exceptions are modelled below, the store is taken to answer every statement: the
  integers bound there are Telegram ids and row ids, which fit 64 bits.
\<close>

record user_row =
  u_telegram_id :: int
  u_username :: "string option"
  u_first_name :: "string option"

record template_row =
  t_id :: int
  t_user_id :: int
  t_name :: string
  t_description :: "string option"

record document_row =
  d_id :: int
  d_user_id :: int
  d_name :: string
  d_file_id :: string
  d_file_name :: "string option"
  d_file_type :: "string option"
  d_start_date :: "date option"
  d_end_date :: "date option"
  d_template_id :: "int option"
  d_notes :: "string option"

text \<open>
  \<open>reminders_sent\<close> holds the pairs (document_id, days_before); the table's
  \<open>UNIQUE(document_id, days_before)\<close> constraint is what \<open>INSERT OR IGNORE\<close> tests.
  \<open>documents_seq\<close> is the AUTOINCREMENT counter of the documents table (the largest
  row id handed out so far).
\<close>

record database =
  users :: "user_row list"
  templates :: "template_row list"
  documents :: "document_row list"
  documents_seq :: int
  reminders_sent :: "(int \<times> int) list"

definition get_or_create_user ::
  "int \<Rightarrow> string option \<Rightarrow> string option \<Rightarrow> database \<Rightarrow> user_row \<times> database" where
  "get_or_create_user telegram_id username first_name db =
     (case filter (\<lambda>u. u_telegram_id u = telegram_id) (users db) of
        user # _ \<Rightarrow>
          (user,
           db\<lparr>users := map (\<lambda>u. if u_telegram_id u = telegram_id
                                then u\<lparr>u_username := username, u_first_name := first_name\<rparr>
                                else u) (users db)\<rparr>)
      | [] \<Rightarrow>
          (let row = \<lparr>u_telegram_id = telegram_id, u_username = username,
                      u_first_name = first_name\<rparr>
           in (row, db\<lparr>users := users db @ [row]\<rparr>)))"

text \<open>
  \<open>insert_document\<close>. The module \<open>sqlite3\<close> raises OverflowError when it binds an
  integer parameter that does not fit 64 bits (here the user id and the template id),
  and an AUTOINCREMENT table whose largest row id has been used refuses the insert
  (sqlite3.OperationalError, here DatabaseError); the exception leaves the function and
  the store is rolled back, that is, unchanged. Foreign keys are not enforced (the
  connection never switches them on), so any template id is stored.
\<close>

definition int64 :: "int \<Rightarrow> bool" where
  "int64 i \<longleftrightarrow> - (2 ^ 63) \<le> i \<and> i < 2 ^ 63"

text \<open>The row id an AUTOINCREMENT table gives the next row: one more than the largest
  row id it has ever held.\<close>

definition next_rowid :: "database \<Rightarrow> int" where
  "next_rowid db = max (documents_seq db) (fold max (map d_id (documents db)) 0) + 1"

definition insert_document ::
  "int \<Rightarrow> string \<Rightarrow> string \<Rightarrow> string option \<Rightarrow> string option \<Rightarrow> date option \<Rightarrow>
   date option \<Rightarrow> int option \<Rightarrow> string option \<Rightarrow> database \<Rightarrow>
   py_error + (int option \<times> database)" where
  "insert_document user_id name file_id file_name file_type start_date end_date
                   template_id notes db =
     (if \<not> int64 user_id \<or> (case template_id of None \<Rightarrow> False | Some t \<Rightarrow> \<not> int64 t)
      then Inl OverflowError
      else
        (let lastrowid = next_rowid db;
             row = \<lparr>d_id = lastrowid, d_user_id = user_id, d_name = name, d_file_id = file_id,
                    d_file_name = file_name, d_file_type = file_type,
                    d_start_date = start_date, d_end_date = end_date,
                    d_template_id = template_id, d_notes = notes\<rparr>
         in if \<not> int64 lastrowid then Inl DatabaseError
            else Inr (Some lastrowid,
                      db\<lparr>documents := documents db @ [row], documents_seq := lastrowid\<rparr>)))"

definition get_documents_count :: "int \<Rightarrow> database \<Rightarrow> int" where
  "get_documents_count user_id db =
     int (length (filter (\<lambda>d. d_user_id d = user_id) (documents db)))"

text \<open>
  \<open>delete_document\<close> runs three statements on one cursor. The cursor is modelled with
  what the function reads from it and with the list of statements it has executed, in
  the order of execution: \<open>execute\<close> applies a statement to the store, sets the rows
  to fetch and the \<open>rowcount\<close>, and appends the statement to that list.
\<close>

datatype sql_statement =
    SelectDocumentId int int
  | DeleteRemindersSent int
  | DeleteDocuments int int

record cursor =
  cur_db :: database
  cur_rows :: "int list"
  cur_rowcount :: int
  cur_executed :: "sql_statement list"

definition new_cursor :: "database \<Rightarrow> cursor" where
  "new_cursor db = \<lparr>cur_db = db, cur_rows = [], cur_rowcount = - 1, cur_executed = []\<rparr>"

fun execute :: "sql_statement \<Rightarrow> cursor \<Rightarrow> cursor" where
  "execute (SelectDocumentId doc_id user_id) cur =
     cur\<lparr>cur_rows := map d_id (filter (\<lambda>d. d_id d = doc_id \<and> d_user_id d = user_id)
                                      (documents (cur_db cur))),
         cur_rowcount := - 1,
         cur_executed := cur_executed cur @ [SelectDocumentId doc_id user_id]\<rparr>"
| "execute (DeleteRemindersSent doc_id) cur =
     cur\<lparr>cur_db := (cur_db cur)\<lparr>reminders_sent :=
                        filter (\<lambda>r. fst r \<noteq> doc_id) (reminders_sent (cur_db cur))\<rparr>,
         cur_rows := [],
         cur_rowcount := int (length (filter (\<lambda>r. fst r = doc_id)
                                        (reminders_sent (cur_db cur)))),
         cur_executed := cur_executed cur @ [DeleteRemindersSent doc_id]\<rparr>"
| "execute (DeleteDocuments doc_id user_id) cur =
     cur\<lparr>cur_db := (cur_db cur)\<lparr>documents :=
                        filter (\<lambda>d. \<not> (d_id d = doc_id \<and> d_user_id d = user_id))
                               (documents (cur_db cur))\<rparr>,
         cur_rows := [],
         cur_rowcount := int (length (filter (\<lambda>d. d_id d = doc_id \<and> d_user_id d = user_id)
                                        (documents (cur_db cur)))),
         cur_executed := cur_executed cur @ [DeleteDocuments doc_id user_id]\<rparr>"

text \<open>
  \<open>delete_document\<close> returns its boolean and the cursor as the function leaves it:
  \<open>cur_db\<close> is the store that is committed, \<open>cur_executed\<close> the statements that ran.
\<close>

definition delete_document :: "int \<Rightarrow> int \<Rightarrow> database \<Rightarrow> bool \<times> cursor" where
  "delete_document doc_id user_id db =
     (let cur = execute (SelectDocumentId doc_id user_id) (new_cursor db)
      in if cur_rows cur = []
         then (False, cur)
         else
           (let cur = execute (DeleteRemindersSent doc_id) cur;
                cur = execute (DeleteDocuments doc_id user_id) cur;
                deleted = (cur_rowcount cur > 0)
            in (deleted, cur)))"

text \<open>
  \<open>get_user_templates\<close>: the user's templates ordered by name (byte order, SQLite's
  BINARY collation), each with the number of documents attached to it.
\<close>

definition get_user_templates :: "int \<Rightarrow> database \<Rightarrow> (template_row \<times> nat) list" where
  "get_user_templates user_id db =
     sort_key (\<lambda>r. t_name (fst r))
       (map (\<lambda>t. (t, length (filter (\<lambda>d. d_template_id d = Some (t_id t)) (documents db))))
            (filter (\<lambda>t. t_user_id t = user_id) (templates db)))"

text \<open>
  \<open>get_expiring_documents\<close>: the join of documents with their owner's user row,
  restricted to the documents whose end date lies exactly \<open>days\<close> days after today.
  \<open>julianday(end) - julianday(today)\<close> of two dates is the whole number
  \<open>end - today\<close>, which the cast to INTEGER leaves as it is. \<open>date.today()\<close> is the
  parameter \<open>today\<close>.
\<close>

definition get_expiring_documents ::
  "date \<Rightarrow> int \<Rightarrow> database \<Rightarrow> (document_row \<times> user_row) list" where
  "get_expiring_documents today days db =
     concat (map (\<lambda>d. map (\<lambda>u. (d, u))
                          (filter (\<lambda>u. d_user_id d = u_telegram_id u) (users db)))
                 (filter (\<lambda>d. case d_end_date d of None \<Rightarrow> False
                                | Some e \<Rightarrow> e - today = days)
                         (documents db)))"

definition is_reminder_sent :: "int \<Rightarrow> int \<Rightarrow> database \<Rightarrow> bool" where
  "is_reminder_sent doc_id days_before db =
     (filter (\<lambda>r. r = (doc_id, days_before)) (reminders_sent db) \<noteq> [])"

definition mark_reminder_sent :: "int \<Rightarrow> int \<Rightarrow> database \<Rightarrow> database" where
  "mark_reminder_sent doc_id days_before db =
     (if (doc_id, days_before) \<in> set (reminders_sent db) then db
      else db\<lparr>reminders_sent := reminders_sent db @ [(doc_id, days_before)]\<rparr>)"

section \<open>The reminder job (jobs.py)\<close>

text \<open>
  The text of a reminder is kept as its parts: the document's name, its end date and
  the urgency line chosen by the \<open>if\<close>/\<open>elif\<close> chain.
\<close>

datatype urgency = Today | Tomorrow | InDaysWeek int | InDays int

record reminder_message =
  rm_name :: string
  rm_end_date :: "date option"
  rm_urgency :: urgency

definition urgency_of :: "int \<Rightarrow> urgency" where
  "urgency_of days =
     (if days = 0 then Today
      else if days = 1 then Tomorrow
      else if days \<le> 7 then InDaysWeek days
      else InDays days)"

text \<open>
  The two log lines of the loop body: \<open>logger.info("Reminder sent: ...")\<close> with
  document, user and threshold, and \<open>logger.error("Failed to send reminder: ...")\<close>
  with document and user.
\<close>

datatype log_line =
    ReminderSent int int int
  | FailedToSend int int

text \<open>
  The transport is a parameter: \<open>send tr chat_id message\<close> is one call of
  \<open>context.bot.send_message\<close> in transport state \<open>tr\<close>; it returns whether the call
  returned (True) or raised (False), and the next transport state.
\<close>

record 'tr job_state =
  job_db :: database
  job_bot :: 'tr
  sent_count :: nat
  job_log :: "log_line list"

fun remind_documents ::
  "('tr \<Rightarrow> int \<Rightarrow> reminder_message \<Rightarrow> bool \<times> 'tr) \<Rightarrow> int \<Rightarrow>
   (document_row \<times> user_row) list \<Rightarrow> 'tr job_state \<Rightarrow> 'tr job_state" where
  "remind_documents send days [] st = st"
| "remind_documents send days (doc # docs) st =
     (let doc_id = d_id (fst doc);
          user_telegram_id = u_telegram_id (snd doc)
      in if is_reminder_sent doc_id days (job_db st)
         then remind_documents send days docs st
         else
           (let message = \<lparr>rm_name = d_name (fst doc), rm_end_date = d_end_date (fst doc),
                           rm_urgency = urgency_of days\<rparr>;
                (ok, tr') = send (job_bot st) user_telegram_id message
            in if ok
               then remind_documents send days docs
                      (st\<lparr>job_db := mark_reminder_sent doc_id days (job_db st),
                          job_bot := tr',
                          sent_count := sent_count st + 1,
                          job_log := job_log st @ [ReminderSent doc_id user_telegram_id days]\<rparr>)
               else remind_documents send days docs
                      (st\<lparr>job_bot := tr',
                          job_log := job_log st @ [FailedToSend doc_id user_telegram_id]\<rparr>)))"

fun remind_thresholds ::
  "('tr \<Rightarrow> int \<Rightarrow> reminder_message \<Rightarrow> bool \<times> 'tr) \<Rightarrow> date \<Rightarrow> int list \<Rightarrow>
   'tr job_state \<Rightarrow> 'tr job_state" where
  "remind_thresholds send today [] st = st"
| "remind_thresholds send today (days # rest) st =
     remind_thresholds send today rest
       (remind_documents send days (get_expiring_documents today days (job_db st)) st)"

text \<open>
  \<open>send_reminders\<close>: one run of the job over the configured thresholds
  (\<open>REMINDER_DAYS_BEFORE\<close>, a parameter: config.py is not part of the sources), with
  its own counter and log.
\<close>

definition send_reminders ::
  "int list \<Rightarrow> ('tr \<Rightarrow> int \<Rightarrow> reminder_message \<Rightarrow> bool \<times> 'tr) \<Rightarrow> date \<Rightarrow>
   database \<Rightarrow> 'tr \<Rightarrow> 'tr job_state" where
  "send_reminders REMINDER_DAYS_BEFORE send today db tr =
     remind_thresholds send today REMINDER_DAYS_BEFORE
       \<lparr>job_db = db, job_bot = tr, sent_count = 0, job_log = []\<rparr>"

text \<open>
  A transport that keeps a record of its calls: \<open>recording send\<close> behaves as \<open>send\<close>
  and appends each call, with the chat, the message and whether it returned, to a list
  kept beside the state of \<open>send\<close>. What a run of the job delivers is read from this
  list, which only the transport writes.
\<close>

type_synonym call = "int \<times> reminder_message \<times> bool"

definition recording ::
  "('tr \<Rightarrow> int \<Rightarrow> reminder_message \<Rightarrow> bool \<times> 'tr) \<Rightarrow>
   'tr \<times> call list \<Rightarrow> int \<Rightarrow> reminder_message \<Rightarrow> bool \<times> ('tr \<times> call list)" where
  "recording send tr chat_id message =
     (let (ok, tr') = send (fst tr) chat_id message
      in (ok, (tr', snd tr @ [(chat_id, message, ok)])))"

section \<open>Attempts of a run\<close>

text \<open>
  An attempt is one pass through the sending part of the loop body: the row it was
  made for, the threshold, and whether \<open>send_message\<close> returned. \<open>att_call\<close> is the
  call the transport sees for it and \<open>att_line\<close> the line the job logs for it;
  \<open>succeeded\<close> lists the (document, threshold) pairs of the attempts that were
  delivered. \<open>att_matched\<close> says that the attempt's row is one the query returns for
  the attempt's threshold, a configured one.
\<close>

type_synonym attempt = "(document_row \<times> user_row) \<times> int \<times> bool"

definition att_pair :: "attempt \<Rightarrow> int \<times> int" where
  "att_pair a = (d_id (fst (fst a)), fst (snd a))"

definition att_ok :: "attempt \<Rightarrow> bool" where
  "att_ok a = snd (snd a)"

definition att_call :: "attempt \<Rightarrow> call" where
  "att_call a =
     (u_telegram_id (snd (fst a)),
      \<lparr>rm_name = d_name (fst (fst a)), rm_end_date = d_end_date (fst (fst a)),
       rm_urgency = urgency_of (fst (snd a))\<rparr>,
      snd (snd a))"

definition att_line :: "attempt \<Rightarrow> log_line" where
  "att_line a =
     (if snd (snd a)
      then ReminderSent (d_id (fst (fst a))) (u_telegram_id (snd (fst a))) (fst (snd a))
      else FailedToSend (d_id (fst (fst a))) (u_telegram_id (snd (fst a))))"

definition succeeded :: "attempt list \<Rightarrow> (int \<times> int) list" where
  "succeeded atts = map att_pair (filter att_ok atts)"

definition att_matched :: "date \<Rightarrow> int list \<Rightarrow> database \<Rightarrow> attempt \<Rightarrow> bool" where
  "att_matched today ks db a \<longleftrightarrow>
     fst (snd a) \<in> set ks \<and> fst a \<in> set (get_expiring_documents today (fst (snd a)) db)"

text \<open>
  Bookkeeping for the proofs: \<open>advances st atts st'\<close> relates the job state before
  and after some iterations that made the attempts \<open>atts\<close>; \<open>matched\<close> is the set of
  (document, threshold) pairs the queries of a run return.
\<close>

definition advances ::
  "('tr \<times> call list) job_state \<Rightarrow> attempt list \<Rightarrow> ('tr \<times> call list) job_state \<Rightarrow> bool" where
  "advances st atts st' \<longleftrightarrow>
     job_log st' = job_log st @ map att_line atts \<and>
     snd (job_bot st') = snd (job_bot st) @ map att_call atts \<and>
     users (job_db st') = users (job_db st) \<and>
     templates (job_db st') = templates (job_db st) \<and>
     documents (job_db st') = documents (job_db st) \<and>
     documents_seq (job_db st') = documents_seq (job_db st) \<and>
     set (reminders_sent (job_db st')) =
       set (reminders_sent (job_db st)) \<union> set (succeeded atts) \<and>
     distinct (succeeded atts) \<and>
     set (map att_pair atts) \<inter> set (reminders_sent (job_db st)) = {} \<and>
     sent_count st' = sent_count st + length (succeeded atts)"

definition matched :: "date \<Rightarrow> int list \<Rightarrow> database \<Rightarrow> (int \<times> int) set" where
  "matched today ks db =
     (\<Union>days \<in> set ks.
        (\<lambda>doc. (d_id (fst doc), days)) ` set (get_expiring_documents today days db))"

text \<open>
  A small store and three transports, used to run the definitions on concrete input:
  one user, three documents (ending in 7 days, today, never) with today = 100, and one
  ledger row.
\<close>

definition example_db :: database where
  "example_db =
     \<lparr>users = [\<lparr>u_telegram_id = 501, u_username = None, u_first_name = Some ''Ann''\<rparr>],
      templates = [],
      documents =
        [\<lparr>d_id = 1, d_user_id = 501, d_name = ''Passport'', d_file_id = ''f1'',
          d_file_name = None, d_file_type = None, d_start_date = None,
          d_end_date = Some 107, d_template_id = None, d_notes = None\<rparr>,
         \<lparr>d_id = 2, d_user_id = 501, d_name = ''Visa'', d_file_id = ''f2'',
          d_file_name = None, d_file_type = None, d_start_date = None,
          d_end_date = Some 100, d_template_id = None, d_notes = None\<rparr>,
         \<lparr>d_id = 3, d_user_id = 501, d_name = ''Note'', d_file_id = ''f3'',
          d_file_name = None, d_file_type = None, d_start_date = None,
          d_end_date = None, d_template_id = None, d_notes = None\<rparr>],
      documents_seq = 3,
      reminders_sent = [(1, 30)]\<rparr>"

definition always_delivers :: "unit \<Rightarrow> int \<Rightarrow> reminder_message \<Rightarrow> bool \<times> unit" where
  "always_delivers tr chat_id message = (True, tr)"

definition never_delivers :: "unit \<Rightarrow> int \<Rightarrow> reminder_message \<Rightarrow> bool \<times> unit" where
  "never_delivers tr chat_id message = (False, tr)"

definition fails_first :: "nat \<Rightarrow> int \<Rightarrow> reminder_message \<Rightarrow> bool \<times> nat" where
  "fails_first tr chat_id message = (tr \<noteq> 0, tr + 1)"

text \<open>
  Two runs of the job in succession on the example store with today = 100 and the
  thresholds 0, 1, 3, 7, 30: the second run starts from the store the first one left
  and from the transport state the first one left, with a fresh record of calls.
\<close>

definition first_run ::
  "('tr \<Rightarrow> int \<Rightarrow> reminder_message \<Rightarrow> bool \<times> 'tr) \<Rightarrow> 'tr \<Rightarrow> ('tr \<times> call list) job_state" where
  "first_run send tr = send_reminders [0, 1, 3, 7, 30] (recording send) 100 example_db (tr, [])"

definition second_run ::
  "('tr \<Rightarrow> int \<Rightarrow> reminder_message \<Rightarrow> bool \<times> 'tr) \<Rightarrow> 'tr \<Rightarrow> ('tr \<times> call list) job_state" where
  "second_run send tr =
     send_reminders [0, 1, 3, 7, 30] (recording send) 100 (job_db (first_run send tr))
       (fst (job_bot (first_run send tr)), [])"

text \<open>What a recorded call shows of its message: name, urgency and whether it returned.\<close>

definition call_summary :: "call \<Rightarrow> string \<times> urgency \<times> bool" where
  "call_summary c = (rm_name (fst (snd c)), rm_urgency (fst (snd c)), snd (snd c))"

section \<open>Python strings, slices and dates\<close>

text \<open>
  \<open>str.strip()\<close> removes the characters for which \<open>str.isspace()\<close> holds; below
  code point 256 these are 9 to 13, 28 to 32, 133 and 160.
\<close>

definition isspace :: "char \<Rightarrow> bool" where
  "isspace c = ((of_char c :: nat) \<in> {9, 10, 11, 12, 13, 28, 29, 30, 31, 32, 133, 160})"

definition strip :: "string \<Rightarrow> string" where
  "strip s = rev (dropWhile isspace (rev (dropWhile isspace s)))"

text \<open>\<open>s.split(sep)\<close> for a one-character separator: never an empty list.\<close>

fun split :: "char \<Rightarrow> string \<Rightarrow> string list" where
  "split sep [] = [[]]"
| "split sep (c # cs) =
     (if c = sep then [] # split sep cs
      else (case split sep cs of
              w # ws \<Rightarrow> (c # w) # ws
            | [] \<Rightarrow> [[c]]))"

text \<open>\<open>str.lower()\<close> on code points below 256: A to Z, and 192 to 222 except 215.\<close>

definition lower_char :: "char \<Rightarrow> char" where
  "lower_char c =
     (let n = (of_char c :: nat)
      in if (65 \<le> n \<and> n \<le> 90) \<or> (192 \<le> n \<and> n \<le> 222 \<and> n \<noteq> 215)
         then char_of (n + 32) else c)"

definition lower :: "string \<Rightarrow> string" where
  "lower s = map lower_char s"

definition isdigit :: "char \<Rightarrow> bool" where
  "isdigit c = (48 \<le> (of_char c :: nat) \<and> (of_char c :: nat) \<le> 57)"

definition digit_value :: "char \<Rightarrow> int" where
  "digit_value c = int (of_char c) - 48"

definition digits_value :: "string \<Rightarrow> int" where
  "digits_value s = foldl (\<lambda>acc c. 10 * acc + digit_value c) 0 s"

text \<open>\<open>str(n)\<close> for an integer, as the f-strings print ids and page numbers.\<close>

fun str_nat :: "nat \<Rightarrow> string" where
  "str_nat n = (if n < 10 then [char_of (48 + n)]
                else str_nat (n div 10) @ [char_of (48 + n mod 10)])"

declare str_nat.simps [simp del]

definition str_int :: "int \<Rightarrow> string" where
  "str_int i = (if i < 0 then CHR ''-'' # str_nat (nat (- i)) else str_nat (nat i))"

text \<open>
  \<open>int(s)\<close> for a string. The characters ignored at both ends are not those of
  \<open>str.strip\<close>: the parser skips the whitespace of C (9 to 13 and 32), and before
  it runs the whitespace at or above code point 127 (133 and 160 here) is replaced by a
  blank, so 28 to 31 are not skipped. Then come an optional sign and decimal digits,
  where single underscores may stand between digits; more than 4300 digits, or anything
  else, raises ValueError.
\<close>

definition int_space :: "char \<Rightarrow> bool" where
  "int_space c = ((of_char c :: nat) \<in> {9, 10, 11, 12, 13, 32, 133, 160})"

fun no_double_underscore :: "string \<Rightarrow> bool" where
  "no_double_underscore (a # b # cs) =
     (\<not> (a = CHR ''_'' \<and> b = CHR ''_'') \<and> no_double_underscore (b # cs))"
| "no_double_underscore _ = True"

definition int_body :: "string \<Rightarrow> py_error + int" where
  "int_body s =
     (if s \<noteq> [] \<and> isdigit (hd s) \<and> isdigit (last s) \<and>
         list_all (\<lambda>c. isdigit c \<or> c = CHR ''_'') s \<and> no_double_underscore s \<and>
         length (filter isdigit s) \<le> 4300
      then Inr (digits_value (filter isdigit s))
      else Inl ValueError)"

definition py_int :: "string \<Rightarrow> py_error + int" where
  "py_int s =
     (case rev (dropWhile int_space (rev (dropWhile int_space s))) of
        [] \<Rightarrow> Inl ValueError
      | c # cs \<Rightarrow>
          if c = CHR ''-'' then (case int_body cs of Inl e \<Rightarrow> Inl e | Inr v \<Rightarrow> Inr (- v))
          else if c = CHR ''+'' then int_body cs
          else int_body (c # cs))"

text \<open>
  \<open>xs[start:stop]\<close>: a negative index counts from the end, and both ends are clamped
  to the list.
\<close>

definition py_slice :: "'a list \<Rightarrow> int \<Rightarrow> int \<Rightarrow> 'a list" where
  "py_slice xs start stop =
     (let n = int (length xs);
          clamp = (\<lambda>i. if i < 0 then max (i + n) 0 else min i n);
          s = clamp start;
          e = clamp stop
      in take (nat (e - s)) (drop (nat s) xs))"

text \<open>
  The calendar (module \<open>datetime\<close>): \<open>_is_leap\<close>, \<open>_days_before_year\<close>,
  \<open>_days_in_month\<close>, \<open>_days_before_month\<close> and \<open>_ymd2ord\<close>, and the range check of
  the \<open>date\<close> constructor, which raises ValueError.
\<close>

definition is_leap :: "int \<Rightarrow> bool" where
  "is_leap year = (year mod 4 = 0 \<and> (year mod 100 \<noteq> 0 \<or> year mod 400 = 0))"

definition days_before_year :: "int \<Rightarrow> int" where
  "days_before_year year =
     (let y = year - 1 in y * 365 + y div 4 - y div 100 + y div 400)"

definition DAYS_IN_MONTH :: "int list" where
  "DAYS_IN_MONTH = [-1, 31, 28, 31, 30, 31, 30, 31, 31, 30, 31, 30, 31]"

definition DAYS_BEFORE_MONTH :: "int list" where
  "DAYS_BEFORE_MONTH = [-1, 0, 31, 59, 90, 120, 151, 181, 212, 243, 273, 304, 334]"

definition days_in_month :: "int \<Rightarrow> int \<Rightarrow> int" where
  "days_in_month year month =
     (if month = 2 \<and> is_leap year then 29 else DAYS_IN_MONTH ! nat month)"

definition days_before_month :: "int \<Rightarrow> int \<Rightarrow> int" where
  "days_before_month year month =
     DAYS_BEFORE_MONTH ! nat month + (if month > 2 \<and> is_leap year then 1 else 0)"

definition ymd2ord :: "int \<Rightarrow> int \<Rightarrow> int \<Rightarrow> int" where
  "ymd2ord year month day =
     days_before_year year + days_before_month year month + day"

definition make_date :: "int \<Rightarrow> int \<Rightarrow> int \<Rightarrow> py_error + date" where
  "make_date year month day =
     (if 1 \<le> year \<and> year \<le> 9999 \<and> 1 \<le> month \<and> month \<le> 12 \<and>
         1 \<le> day \<and> day \<le> days_in_month year month
      then Inr (ymd2ord year month day)
      else Inl ValueError)"

text \<open>
  \<open>d + timedelta(days=n)\<close>: the sum of the ordinals if it is the ordinal of a date,
  that is, from 1 (0001-01-01) to \<open>MAXORDINAL\<close> (9999-12-31); OverflowError
  otherwise.
\<close>

definition MAXORDINAL :: int where
  "MAXORDINAL = 3652059"

definition date_add :: "date \<Rightarrow> int \<Rightarrow> py_error + date" where
  "date_add d days =
     (let ordinal = d + days
      in if 0 < ordinal \<and> ordinal \<le> MAXORDINAL then Inr ordinal else Inl OverflowError)"

text \<open>
  \<open>datetime.strptime(text, fmt).date()\<close> for formats made of the directives
  \<open>%d\<close>, \<open>%m\<close>, \<open>%Y\<close> and literal characters. \<open>_strptime\<close> turns the format into
  a regular expression, one group per directive:
  \<open>%d\<close> is \<open>3[0-1]|[1-2]\d|0[1-9]|[1-9]| [1-9]\<close>,
  \<open>%m\<close> is \<open>1[0-2]|0[1-9]|[1-9]\<close> and \<open>%Y\<close> is \<open>\d\d\d\d\<close>.
  The expression is matched at the start of the text, alternatives in the order
  written, with backtracking; text left over after the match raises ValueError, and so
  does a day that the month does not have.
\<close>

datatype char_class = Ch char | Range char char | Digit

fun in_class :: "char_class \<Rightarrow> char \<Rightarrow> bool" where
  "in_class (Ch c) x = (x = c)"
| "in_class (Range lo hi) x = ((of_char lo :: nat) \<le> of_char x \<and> (of_char x :: nat) \<le> of_char hi)"
| "in_class Digit x = isdigit x"

fun match_classes :: "char_class list \<Rightarrow> string \<Rightarrow> (string \<times> string) option" where
  "match_classes [] s = Some ([], s)"
| "match_classes (k # ks) [] = None"
| "match_classes (k # ks) (x # s) =
     (if in_class k x
      then (case match_classes ks s of
              None \<Rightarrow> None
            | Some (g, rest) \<Rightarrow> Some (x # g, rest))
      else None)"

datatype directive = Dir_d | Dir_m | Dir_Y | Lit char

fun alternatives :: "directive \<Rightarrow> char_class list list" where
  "alternatives Dir_d =
     [[Ch CHR ''3'', Range CHR ''0'' CHR ''1''],
      [Range CHR ''1'' CHR ''2'', Digit],
      [Ch CHR ''0'', Range CHR ''1'' CHR ''9''],
      [Range CHR ''1'' CHR ''9''],
      [Ch CHR '' '', Range CHR ''1'' CHR ''9'']]"
| "alternatives Dir_m =
     [[Ch CHR ''1'', Range CHR ''0'' CHR ''2''],
      [Ch CHR ''0'', Range CHR ''1'' CHR ''9''],
      [Range CHR ''1'' CHR ''9'']]"
| "alternatives Dir_Y = [[Digit, Digit, Digit, Digit]]"
| "alternatives (Lit c) = [[Ch c]]"

fun first_some :: "'a option list \<Rightarrow> 'a option" where
  "first_some [] = None"
| "first_some (None # xs) = first_some xs"
| "first_some (Some x # xs) = Some x"

text \<open>
  \<open>regex_match fmt s\<close>: the groups of the first match of the format's expression at
  the start of \<open>s\<close>, each with its directive, and the text after the match.
\<close>

fun regex_match :: "directive list \<Rightarrow> string \<Rightarrow> ((directive \<times> string) list \<times> string) option" where
  "regex_match [] s = Some ([], s)"
| "regex_match (d # ds) s =
     first_some
       (map (\<lambda>alt. case match_classes alt s of
                      None \<Rightarrow> None
                    | Some (g, s') \<Rightarrow>
                        (case regex_match ds s' of
                           None \<Rightarrow> None
                         | Some (gs, rest) \<Rightarrow> Some ((d, g) # gs, rest)))
            (alternatives d))"

definition group_value :: "directive \<Rightarrow> (directive \<times> string) list \<Rightarrow> int" where
  "group_value d gs =
     (case map_of gs d of
        None \<Rightarrow> (if d = Dir_Y then 1900 else 1)
      | Some g \<Rightarrow> digits_value (filter isdigit g))"

definition strptime_date :: "string \<Rightarrow> directive list \<Rightarrow> py_error + date" where
  "strptime_date text fmt =
     (case regex_match fmt text of
        None \<Rightarrow> Inl ValueError
      | Some (gs, rest) \<Rightarrow>
          if rest \<noteq> [] then Inl ValueError
          else make_date (group_value Dir_Y gs) (group_value Dir_m gs) (group_value Dir_d gs))"

text \<open>The three formats of the manual date handlers, in the order of the source.\<close>

definition fmt_dmy_dot :: "directive list" where
  "fmt_dmy_dot = [Dir_d, Lit CHR ''.'', Dir_m, Lit CHR ''.'', Dir_Y]"

definition fmt_dmy_slash :: "directive list" where
  "fmt_dmy_slash = [Dir_d, Lit CHR ''/'', Dir_m, Lit CHR ''/'', Dir_Y]"

definition fmt_ymd_dash :: "directive list" where
  "fmt_ymd_dash = [Dir_Y, Lit CHR ''-'', Dir_m, Lit CHR ''-'', Dir_d]"

text \<open>
  The loop \<open>for fmt in [...]: try: parsed_date = strptime(text, fmt).date(); break
  except ValueError: continue\<close>, starting from \<open>parsed_date = None\<close>.
\<close>

fun parse_with_formats :: "directive list list \<Rightarrow> string \<Rightarrow> date option" where
  "parse_with_formats [] text = None"
| "parse_with_formats (fmt # fmts) text =
     (case strptime_date text fmt of
        Inr d \<Rightarrow> Some d
      | Inl e \<Rightarrow> parse_with_formats fmts text)"

section \<open>Helpers of the bot (utils.py)\<close>

text \<open>
  \<open>os.path.splitext(p)[1]\<close> (posixpath): the part of \<open>p\<close> from the last dot on,
  provided that dot comes after the last slash and some character other than a dot
  stands between that slash and it; otherwise the empty string.
\<close>

definition splitext_ext :: "string \<Rightarrow> string" where
  "splitext_ext p =
     (let base = rev (takeWhile (\<lambda>c. c \<noteq> CHR ''/'') (rev p))
      in if CHR ''.'' \<in> set base
         then (let ext = CHR ''.'' # rev (takeWhile (\<lambda>c. c \<noteq> CHR ''.'') (rev base));
                   stem = rev (tl (dropWhile (\<lambda>c. c \<noteq> CHR ''.'') (rev base)))
               in if list_ex (\<lambda>c. c \<noteq> CHR ''.'') stem then ext else [])
         else [])"

datatype file_error = NoFileName | UnsupportedFormat string | FileTooLarge

text \<open>
  \<open>validate_file\<close>; \<open>ALLOWED_EXTENSIONS\<close> and \<open>MAX_FILE_SIZE\<close> come from config.py,
  which is not part of the sources, and are parameters. A document may come without a
  name or a size (None); comparing a missing size with the maximum raises TypeError.
  The result is the error of the source's \<open>(False, message)\<close>, or None for
  \<open>(True, "")\<close>.
\<close>

definition validate_file ::
  "string list \<Rightarrow> int \<Rightarrow> string option \<Rightarrow> int option \<Rightarrow> py_error + file_error option" where
  "validate_file ALLOWED_EXTENSIONS MAX_FILE_SIZE file_name file_size =
     (case file_name of
        None \<Rightarrow> Inr (Some NoFileName)
      | Some fname \<Rightarrow>
          if fname = [] then Inr (Some NoFileName)
          else
            (let ext = splitext_ext (lower fname)
             in if ext \<notin> set ALLOWED_EXTENSIONS then Inr (Some (UnsupportedFormat ext))
                else (case file_size of
                        None \<Rightarrow> Inl TypeError
                      | Some fsize \<Rightarrow>
                          if fsize > MAX_FILE_SIZE then Inr (Some FileTooLarge)
                          else Inr None)))"

definition type_mapping :: "(string list \<times> string) list" where
  "type_mapping =
     [([''.pdf''], ''pdf''),
      ([''.doc'', ''.docx'', ''.odt'', ''.rtf''], ''document''),
      ([''.xls'', ''.xlsx'', ''.ods''], ''spreadsheet''),
      ([''.ppt'', ''.pptx'', ''.odp''], ''presentation''),
      ([''.jpg'', ''.jpeg'', ''.png'', ''.gif'', ''.webp''], ''image''),
      ([''.zip'', ''.rar'', ''.7z''], ''archive''),
      ([''.txt''], ''text'')]"

definition get_file_type :: "string option \<Rightarrow> string" where
  "get_file_type file_name =
     (case file_name of
        None \<Rightarrow> ''unknown''
      | Some fname \<Rightarrow>
          if fname = [] then ''unknown''
          else (let ext = splitext_ext (lower fname)
                in case filter (\<lambda>entry. ext \<in> set (fst entry)) type_mapping of
                     [] \<Rightarrow> ''other''
                   | entry # _ \<Rightarrow> snd entry))"

text \<open>
  Inline keyboards: rows of buttons, a button being its caption and its
  \<open>callback_data\<close>. Captions are kept as what they show, not as the rendered text.
\<close>

datatype caption =
    TodayCaption date
  | QuickCaption string
  | ManualCaption
  | SkipCaption
  | ItemCaption string
  | TemplateCaption string nat
  | PrevCaption
  | NextCaption
  | PageCaption int int
  | BackCaption
  | NoTemplateCaption
  | CreateTemplateCaption

type_synonym button = "caption \<times> string"
type_synonym keyboard = "button list list"

text \<open>The table \<open>quick_dates\<close> of \<open>build_date_keyboard\<close>: code and number of days.\<close>

definition quick_dates :: "(string \<times> int) list" where
  "quick_dates =
     [(''+1m'', 30), (''+3m'', 90), (''+6m'', 180),
      (''+1y'', 365), (''+2y'', 730), (''+5y'', 1825)]"

text \<open>
  The loop over \<open>quick_dates\<close>: it computes \<open>target_date = today + timedelta(days)\<close>
  for each option, which raises OverflowError past 9999-12-31 although the value is not
  used, and puts the buttons two to a row.
\<close>

fun quick_rows :: "date \<Rightarrow> string \<Rightarrow> button list \<Rightarrow> (string \<times> int) list \<Rightarrow> py_error + keyboard" where
  "quick_rows today callback_prefix row [] = Inr (if row = [] then [] else [row])"
| "quick_rows today callback_prefix row ((code, days) # rest) =
     (case date_add today days of
        Inl e \<Rightarrow> Inl e
      | Inr target_date \<Rightarrow>
          (let row' = row @ [(QuickCaption code, callback_prefix @ ''|'' @ code)]
           in if length row' = 2
              then (case quick_rows today callback_prefix [] rest of
                      Inl e \<Rightarrow> Inl e
                    | Inr rows \<Rightarrow> Inr (row' # rows))
              else quick_rows today callback_prefix row' rest))"

definition build_date_keyboard ::
  "date \<Rightarrow> string \<Rightarrow> bool \<Rightarrow> bool \<Rightarrow> bool \<Rightarrow> py_error + keyboard" where
  "build_date_keyboard today callback_prefix include_today include_skip quick_options =
     (case (if quick_options then quick_rows today callback_prefix [] quick_dates else Inr []) of
        Inl e \<Rightarrow> Inl e
      | Inr rows \<Rightarrow>
          Inr ((if include_today
                then [[(TodayCaption today, callback_prefix @ ''|today'')]] else []) @
               rows @
               [[(ManualCaption, callback_prefix @ ''|manual'')]] @
               (if include_skip then [[(SkipCaption, callback_prefix @ ''|skip'')]] else [])))"

text \<open>
  \<open>build_pagination_keyboard\<close>. \<open>total_pages\<close> is the floor division
  \<open>(len(items) + page_size - 1) // page_size\<close>, which raises ZeroDivisionError for
  a page size of 0; Python's \<open>//\<close> and HOL's \<open>div\<close> on integers both round down.
\<close>

definition pagination_total_pages :: "'a list \<Rightarrow> int \<Rightarrow> py_error + int" where
  "pagination_total_pages items page_size =
     (if page_size = 0 then Inl ZeroDivisionError
      else Inr ((int (length items) + page_size - 1) div page_size))"

definition build_pagination_keyboard ::
  "'a list \<Rightarrow> int \<Rightarrow> int \<Rightarrow> string \<Rightarrow> string \<Rightarrow> ('a \<Rightarrow> string) \<Rightarrow> ('a \<Rightarrow> string) \<Rightarrow>
   string option \<Rightarrow> py_error + keyboard" where
  "build_pagination_keyboard items page page_size callback_prefix item_callback_prefix
                             get_item_label get_item_id back_callback =
     (case pagination_total_pages items page_size of
        Inl e \<Rightarrow> Inl e
      | Inr total_pages \<Rightarrow>
          (let start_idx = page * page_size;
               end_idx = min (start_idx + page_size) (int (length items))
           in Inr
             (map (\<lambda>item. [(ItemCaption (get_item_label item),
                             item_callback_prefix @ ''|'' @ get_item_id item)])
                  (py_slice items start_idx end_idx) @
              (if total_pages > 1
               then [(if page > 0
                      then [(PrevCaption, callback_prefix @ ''|page|'' @ str_int (page - 1))]
                      else []) @
                     [(PageCaption (page + 1) total_pages, callback_prefix @ ''|current'')] @
                     (if page < total_pages - 1
                      then [(NextCaption, callback_prefix @ ''|page|'' @ str_int (page + 1))]
                      else [])]
               else []) @
              (case back_callback of
                 None \<Rightarrow> []
               | Some cb \<Rightarrow> if cb = [] then [] else [[(BackCaption, cb)]]))))"

text \<open>
  \<open>build_templates_keyboard\<close>; a template row comes with its document count, as
  \<open>get_user_templates\<close> returns it. Here \<open>total_pages\<close> is
  \<open>max(1, (len(templates) + page_size - 1) // page_size)\<close>.
\<close>

definition templates_total_pages :: "'a list \<Rightarrow> int \<Rightarrow> py_error + int" where
  "templates_total_pages tmpls page_size =
     (if page_size = 0 then Inl ZeroDivisionError
      else Inr (max 1 ((int (length tmpls) + page_size - 1) div page_size)))"

definition build_templates_keyboard ::
  "(template_row \<times> nat) list \<Rightarrow> int \<Rightarrow> int \<Rightarrow> bool \<Rightarrow> py_error + keyboard" where
  "build_templates_keyboard tmpls page page_size select_mode =
     (case templates_total_pages tmpls page_size of
        Inl e \<Rightarrow> Inl e
      | Inr total_pages \<Rightarrow>
          (let start_idx = page * page_size;
               end_idx = min (start_idx + page_size) (int (length tmpls));
               prefix = (if select_mode then ''upload|tmplpage'' else ''templates|page'')
           in Inr
             (map (\<lambda>tmpl. [(TemplateCaption (t_name (fst tmpl)) (snd tmpl),
                             (if select_mode then ''upload|template|'' else ''tmpl|view|'') @
                             str_int (t_id (fst tmpl)))])
                  (py_slice tmpls start_idx end_idx) @
              (if total_pages > 1
               then [(if page > 0
                      then [(PrevCaption, prefix @ ''|'' @ str_int (page - 1))]
                      else []) @
                     [(PageCaption (page + 1) total_pages, ''noop'')] @
                     (if page < total_pages - 1
                      then [(NextCaption, prefix @ ''|'' @ str_int (page + 1))]
                      else [])]
               else []) @
              (if select_mode
               then [[(NoTemplateCaption, ''upload|template|skip'')]]
               else [[(CreateTemplateCaption, ''tmpl|create'')]]))))"

text \<open>
  The statement of the specification, in its words: the number of pages is the ceiling
  of count over page size, and at least 1.
\<close>

definition spec_total_pages :: "nat \<Rightarrow> int \<Rightarrow> int" where
  "spec_total_pages count page_size = max 1 \<lceil>real count / real_of_int page_size\<rceil>"

section \<open>Callback routing (handlers and bot.py)\<close>

text \<open>
  A \<open>CallbackQueryHandler\<close> accepts a callback query when \<open>re.match(pattern, data)\<close>
  succeeds. The patterns of the source have three shapes: a literal prefix
  (\<open>^doc\|view\|\<close>), a literal prefix with a negative lookahead
  (\<open>^doc\|delete\|(?!yes)\<close>: the prefix, not followed by \<open>yes\<close>), and a whole
  string (\<open>^noop$\<close>, where \<open>$\<close> also matches before a final newline).
\<close>

datatype pattern =
    Prefix string
  | PrefixNotFollowedBy string string
  | Whole string

fun re_match :: "pattern \<Rightarrow> string \<Rightarrow> bool" where
  "re_match (Prefix p) data = (take (length p) data = p)"
| "re_match (PrefixNotFollowedBy p x) data =
     (take (length p) data = p \<and> take (length x) (drop (length p) data) \<noteq> x)"
| "re_match (Whole p) data = (data = p \<or> data = p @ [CHR 0x0A])"

datatype upload_state =
    WAITING_NAME
  | WAITING_START_DATE
  | WAITING_END_DATE
  | WAITING_TEMPLATE
  | END

datatype callback_handler =
    H_upload_start_date_callback
  | H_upload_end_date_callback
  | H_upload_template_callback
  | H_view_document
  | H_download_document
  | H_delete_document_confirm
  | H_delete_document_execute
  | H_edit_document_menu
  | H_mydocs_list
  | H_view_template
  | H_template_documents_list
  | H_delete_template_confirm
  | H_delete_template_execute
  | H_templates_list
  | H_create_template_start
  | H_noop_callback

definition get_document_callback_handlers :: "(pattern \<times> callback_handler) list" where
  "get_document_callback_handlers =
     [(Prefix ''doc|view|'', H_view_document),
      (Prefix ''doc|download|'', H_download_document),
      (PrefixNotFollowedBy ''doc|delete|'' ''yes'', H_delete_document_confirm),
      (Prefix ''doc|delete_yes|'', H_delete_document_execute),
      (Prefix ''doc|edit|'', H_edit_document_menu),
      (Prefix ''mydocs|list|'', H_mydocs_list)]"

definition get_template_handlers :: "(pattern \<times> callback_handler) list" where
  "get_template_handlers =
     [(Prefix ''tmpl|view|'', H_view_template),
      (Prefix ''tmpl|docs|'', H_template_documents_list),
      (PrefixNotFollowedBy ''tmpl|delete|'' ''yes'', H_delete_template_confirm),
      (Prefix ''tmpl|delete_yes|'', H_delete_template_execute),
      (Prefix ''templates|list|'', H_templates_list),
      (Prefix ''templates|page|'', H_templates_list),
      (Whole ''tmpl|create'', H_create_template_start)]"

definition get_callback_dispatcher :: "(pattern \<times> callback_handler) list" where
  "get_callback_dispatcher = [(Whole ''noop'', H_noop_callback)]"

text \<open>
  The callback handlers of the upload conversation, by state (the \<open>states\<close> argument
  of the \<open>ConversationHandler\<close>); its entry points and fallbacks are message
  handlers and accept no callback query.
\<close>

fun conversation_callback_handlers :: "upload_state \<Rightarrow> (pattern \<times> callback_handler) list" where
  "conversation_callback_handlers WAITING_START_DATE =
     [(Prefix ''start|'', H_upload_start_date_callback)]"
| "conversation_callback_handlers WAITING_END_DATE =
     [(Prefix ''end|'', H_upload_end_date_callback)]"
| "conversation_callback_handlers WAITING_TEMPLATE =
     [(Prefix ''upload|template|'', H_upload_template_callback)]"
| "conversation_callback_handlers _ = []"

fun first_match :: "(pattern \<times> callback_handler) list \<Rightarrow> string \<Rightarrow> callback_handler option" where
  "first_match [] data = None"
| "first_match ((p, h) # hs) data = (if re_match p data then Some h else first_match hs data)"

text \<open>
  \<open>dispatch_callback\<close>: the handler that takes a callback query, in the registration
  order of \<open>main\<close> in bot.py (all handlers are in one group, and the application gives
  an update to the first handler that accepts it): the command handlers accept no
  callback query; then the conversation, in the user's current state if there is one;
  then the document handlers, the template handlers and the final dispatcher.
\<close>

definition dispatch_callback :: "upload_state option \<Rightarrow> string \<Rightarrow> callback_handler option" where
  "dispatch_callback conversation data =
     first_match
       ((case conversation of None \<Rightarrow> [] | Some state \<Rightarrow> conversation_callback_handlers state) @
        get_document_callback_handlers @ get_template_handlers @ get_callback_dispatcher)
       data"

section \<open>The upload conversation (handlers/documents.py)\<close>

text \<open>
  \<open>context.user_data\<close> is a dictionary; the handlers of the conversation use its key
  \<open>"upload"\<close> only, whose value is the draft, itself a dictionary. The draft's keys
  \<open>file_id\<close>, \<open>file_name\<close> and \<open>file_type\<close> are set when it is created; the others
  are read with \<open>.get\<close>, so an absent key and the value None are the same to the
  handlers and both are None here. The two flags are absent (False) or True.
\<close>

record upload_draft =
  up_file_id :: string
  up_file_name :: "string option"
  up_file_type :: string
  up_name :: "string option"
  up_start_date :: "date option"
  up_end_date :: "date option"
  up_template_id :: "int option"
  up_waiting_manual_start :: bool
  up_waiting_manual_end :: bool

record user_data =
  upload :: "upload_draft option"

text \<open>The parts of an incoming update that \<open>upload_start\<close> reads.\<close>

record tg_user =
  tg_id :: int
  tg_username :: "string option"
  tg_first_name :: "string option"

record tg_document =
  doc_file_name :: "string option"
  doc_file_size :: "int option"
  doc_file_id :: string

record tg_photo =
  photo_file_unique_id :: string
  photo_file_size :: "int option"
  photo_file_id :: string

record tg_message =
  msg_document :: "tg_document option"
  msg_photo :: "tg_photo list"

text \<open>
  What a handler sends back: \<open>Answer\<close> is \<open>query.answer()\<close>, the others are the
  texts of \<open>reply_text\<close> and \<open>edit_message_text\<close>, named by their content.
\<close>

datatype reply =
    Answer
  | LimitReachedDocuments int
  | SendFileOrPhoto
  | FileRejected file_error
  | UploadStartPrompt
  | UploadNameInvalid
  | SelectStartDate keyboard
  | EnterStartDate
  | StartDateChosen "date option" keyboard
  | BadStartDate
  | EnterEndDate
  | BadEndDate
  | EndDateChosenSelectTemplate "date option" keyboard
  | SelectTemplate keyboard
  | DocumentSaved string "date option" "date option" int
  | UploadSuccess string
  | ErrorGeneric
  | UploadCancelled

text \<open>
  The outcome of a handler: \<open>result\<close> is the state it returns to the
  \<open>ConversationHandler\<close>, or the exception that leaves it; \<open>replies\<close> is what it
  sent, \<open>session\<close> and \<open>store\<close> are \<open>user_data\<close> and the record store as it
  leaves them, also when it raises: what it wrote before the exception stays written.
  \<open>date.today()\<close> is the parameter \<open>today\<close>; a handler reads the clock at most
  twice (itself and in \<open>build_date_keyboard\<close>) and is taken to run within one day.
\<close>

record outcome =
  result :: "py_error + upload_state"
  replies :: "reply list"
  session :: user_data
  store :: database

record config =
  MAX_DOCUMENTS_PER_USER :: int
  ALLOWED_EXTENSIONS :: "string list"
  MAX_FILE_SIZE :: int

text \<open>
  The default name of \<open>upload_data.get("name", ...)\<close>, a Cyrillic text in the source,
  is transliterated.
\<close>

definition default_document_name :: string where
  "default_document_name = ''Bez nazvaniya''"

text \<open>
  \<open>upload_start\<close>. The user row is committed by \<open>get_or_create_user\<close> before
  anything else, so every outcome carries that store. \<open>validate_file\<close> raises
  TypeError for a document without a size.
\<close>

definition upload_start ::
  "config \<Rightarrow> tg_user \<Rightarrow> tg_message \<Rightarrow> user_data \<Rightarrow> database \<Rightarrow> outcome" where
  "upload_start cfg user message ud db =
     (let db1 = snd (get_or_create_user (tg_id user) (tg_username user) (tg_first_name user) db);
          doc_count = get_documents_count (tg_id user) db1
      in if doc_count \<ge> MAX_DOCUMENTS_PER_USER cfg
         then \<lparr>result = Inr END,
               replies = [LimitReachedDocuments (MAX_DOCUMENTS_PER_USER cfg)],
               session = ud, store = db1\<rparr>
         else
           (case (case msg_document message of
                    Some file \<Rightarrow>
                      Some (doc_file_name file, doc_file_size file, doc_file_id file)
                  | None \<Rightarrow>
                      if msg_photo message \<noteq> []
                      then (let file = last (msg_photo message)
                            in Some (Some (''photo_'' @ photo_file_unique_id file @ ''.jpg''),
                                     Some (case photo_file_size file of
                                             None \<Rightarrow> 0 | Some n \<Rightarrow> n),
                                     photo_file_id file))
                      else None) of
              None \<Rightarrow>
                \<lparr>result = Inr END, replies = [SendFileOrPhoto], session = ud, store = db1\<rparr>
            | Some (file_name, file_size, file_id) \<Rightarrow>
                (case validate_file (ALLOWED_EXTENSIONS cfg) (MAX_FILE_SIZE cfg)
                        file_name file_size of
                   Inl e \<Rightarrow>
                     \<lparr>result = Inl e, replies = [], session = ud, store = db1\<rparr>
                 | Inr (Some error_msg) \<Rightarrow>
                     \<lparr>result = Inr END, replies = [FileRejected error_msg],
                      session = ud, store = db1\<rparr>
                 | Inr None \<Rightarrow>
                     \<lparr>result = Inr WAITING_NAME, replies = [UploadStartPrompt],
                      session = ud\<lparr>upload := Some
                        \<lparr>up_file_id = file_id, up_file_name = file_name,
                         up_file_type = get_file_type file_name,
                         up_name = None, up_start_date = None, up_end_date = None,
                         up_template_id = None, up_waiting_manual_start = False,
                         up_waiting_manual_end = False\<rparr>\<rparr>,
                      store = db1\<rparr>)))"

text \<open>
  \<open>upload_name\<close>. The name is written to the draft (KeyError without a draft) before
  the keyboard is built, which may raise OverflowError.
\<close>

definition upload_name :: "date \<Rightarrow> string \<Rightarrow> user_data \<Rightarrow> database \<Rightarrow> outcome" where
  "upload_name today text ud db =
     (let name = strip text
      in if length name < 2
         then \<lparr>result = Inr WAITING_NAME, replies = [UploadNameInvalid],
               session = ud, store = db\<rparr>
         else
           (let name' = (if length name > 100 then take 100 name else name)
            in case upload ud of
                 None \<Rightarrow> \<lparr>result = Inl KeyError, replies = [], session = ud, store = db\<rparr>
               | Some draft \<Rightarrow>
                   (let ud' = ud\<lparr>upload := Some (draft\<lparr>up_name := Some name'\<rparr>)\<rparr>
                    in case build_date_keyboard today ''start'' True False True of
                         Inl e \<Rightarrow>
                           \<lparr>result = Inl e, replies = [], session = ud', store = db\<rparr>
                       | Inr keyboard \<Rightarrow>
                           \<lparr>result = Inr WAITING_START_DATE,
                            replies = [SelectStartDate keyboard],
                            session = ud', store = db\<rparr>)))"

text \<open>
  The \<open>if\<close>/\<open>elif\<close> chains over \<open>date_option\<close> of the two date callbacks, each
  written out as in its handler: a chosen date (None for skip), the request to type
  the date, or none of the options; \<open>today + timedelta(days=n)\<close> may raise.
\<close>

datatype date_choice = Chosen "date option" | ChooseManual | NoChoice

definition selected :: "py_error + date \<Rightarrow> py_error + date_choice" where
  "selected r = (case r of Inl e \<Rightarrow> Inl e | Inr d \<Rightarrow> Inr (Chosen (Some d)))"

definition start_date_option :: "string \<Rightarrow> date \<Rightarrow> py_error + date_choice" where
  "start_date_option date_option today =
     (if date_option = ''today'' then Inr (Chosen (Some today))
      else if date_option = ''+1m'' then selected (date_add today 30)
      else if date_option = ''+3m'' then selected (date_add today 90)
      else if date_option = ''+6m'' then selected (date_add today 180)
      else if date_option = ''+1y'' then selected (date_add today 365)
      else if date_option = ''+2y'' then selected (date_add today 730)
      else if date_option = ''+5y'' then selected (date_add today 1825)
      else if date_option = ''manual'' then Inr ChooseManual
      else Inr NoChoice)"

definition end_date_option :: "string \<Rightarrow> date \<Rightarrow> py_error + date_choice" where
  "end_date_option date_option today =
     (if date_option = ''skip'' then Inr (Chosen None)
      else if date_option = ''today'' then Inr (Chosen (Some today))
      else if date_option = ''+1m'' then selected (date_add today 30)
      else if date_option = ''+3m'' then selected (date_add today 90)
      else if date_option = ''+6m'' then selected (date_add today 180)
      else if date_option = ''+1y'' then selected (date_add today 365)
      else if date_option = ''+2y'' then selected (date_add today 730)
      else if date_option = ''+5y'' then selected (date_add today 1825)
      else if date_option = ''manual'' then Inr ChooseManual
      else Inr NoChoice)"

text \<open>
  \<open>upload_start_date_callback\<close>: the query is answered first; for \<open>manual\<close> the
  prompt is sent before the flag is written to the draft; for a date the draft is
  written before the keyboard for the end date is built.
\<close>

definition upload_start_date_callback ::
  "date \<Rightarrow> string \<Rightarrow> user_data \<Rightarrow> database \<Rightarrow> outcome" where
  "upload_start_date_callback today query_data ud db =
     (let data = split CHR ''|'' query_data
      in if length data < 2
         then \<lparr>result = Inr WAITING_START_DATE, replies = [Answer], session = ud, store = db\<rparr>
         else
           (case start_date_option (data ! 1) today of
              Inl e \<Rightarrow> \<lparr>result = Inl e, replies = [Answer], session = ud, store = db\<rparr>
            | Inr NoChoice \<Rightarrow>
                \<lparr>result = Inr WAITING_START_DATE, replies = [Answer],
                 session = ud, store = db\<rparr>
            | Inr ChooseManual \<Rightarrow>
                (case upload ud of
                   None \<Rightarrow>
                     \<lparr>result = Inl KeyError, replies = [Answer, EnterStartDate],
                      session = ud, store = db\<rparr>
                 | Some draft \<Rightarrow>
                     \<lparr>result = Inr WAITING_START_DATE, replies = [Answer, EnterStartDate],
                      session = ud\<lparr>upload := Some (draft\<lparr>up_waiting_manual_start := True\<rparr>)\<rparr>,
                      store = db\<rparr>)
            | Inr (Chosen selected_date) \<Rightarrow>
                (case upload ud of
                   None \<Rightarrow>
                     \<lparr>result = Inl KeyError, replies = [Answer], session = ud, store = db\<rparr>
                 | Some draft \<Rightarrow>
                     (let ud' = ud\<lparr>upload := Some (draft\<lparr>up_start_date := selected_date\<rparr>)\<rparr>
                      in case build_date_keyboard today ''end'' False True True of
                           Inl e \<Rightarrow>
                             \<lparr>result = Inl e, replies = [Answer], session = ud', store = db\<rparr>
                         | Inr keyboard \<Rightarrow>
                             \<lparr>result = Inr WAITING_END_DATE,
                              replies = [Answer, StartDateChosen selected_date keyboard],
                              session = ud', store = db\<rparr>))))"

definition manual_formats :: "directive list list" where
  "manual_formats = [fmt_dmy_dot, fmt_dmy_slash, fmt_ymd_dash]"

definition upload_start_date_manual ::
  "date \<Rightarrow> string \<Rightarrow> user_data \<Rightarrow> database \<Rightarrow> outcome" where
  "upload_start_date_manual today message_text ud db =
     (case upload ud of
        None \<Rightarrow>
          \<lparr>result = Inr WAITING_START_DATE, replies = [], session = ud, store = db\<rparr>
      | Some draft \<Rightarrow>
          if \<not> up_waiting_manual_start draft
          then \<lparr>result = Inr WAITING_START_DATE, replies = [], session = ud, store = db\<rparr>
          else
            (case parse_with_formats manual_formats (strip message_text) of
               None \<Rightarrow>
                 \<lparr>result = Inr WAITING_START_DATE, replies = [BadStartDate],
                  session = ud, store = db\<rparr>
             | Some parsed_date \<Rightarrow>
                 (let ud' = ud\<lparr>upload := Some
                              (draft\<lparr>up_start_date := Some parsed_date,
                                     up_waiting_manual_start := False\<rparr>)\<rparr>
                  in case build_date_keyboard today ''end'' False True True of
                       Inl e \<Rightarrow>
                         \<lparr>result = Inl e, replies = [], session = ud', store = db\<rparr>
                     | Inr keyboard \<Rightarrow>
                         \<lparr>result = Inr WAITING_END_DATE,
                          replies = [StartDateChosen (Some parsed_date) keyboard],
                          session = ud', store = db\<rparr>)))"

text \<open>
  \<open>save_document\<close> (after a text message) and \<open>save_document_from_callback\<close> (after
  a callback query): they differ in the text they send. An exception of
  \<open>insert_document\<close> leaves the draft in the session.
\<close>

definition save_document :: "int \<Rightarrow> user_data \<Rightarrow> database \<Rightarrow> outcome" where
  "save_document user_id ud db =
     (case upload ud of
        None \<Rightarrow> \<lparr>result = Inr END, replies = [ErrorGeneric], session = ud, store = db\<rparr>
      | Some upload_data \<Rightarrow>
          if up_file_id upload_data = []
          then \<lparr>result = Inr END, replies = [ErrorGeneric], session = ud, store = db\<rparr>
          else
            (case insert_document user_id
                    (case up_name upload_data of
                       None \<Rightarrow> default_document_name | Some n \<Rightarrow> n)
                    (up_file_id upload_data) (up_file_name upload_data)
                    (Some (up_file_type upload_data)) (up_start_date upload_data)
                    (up_end_date upload_data) (up_template_id upload_data) None db of
               Inl e \<Rightarrow> \<lparr>result = Inl e, replies = [], session = ud, store = db\<rparr>
             | Inr (doc_id, db') \<Rightarrow>
                 \<lparr>result = Inr END,
                  replies = [case doc_id of
                               None \<Rightarrow> ErrorGeneric
                             | Some i \<Rightarrow>
                                 if i = 0 then ErrorGeneric
                                 else UploadSuccess
                                        (case up_name upload_data of
                                           None \<Rightarrow> ''Dokument'' | Some n \<Rightarrow> n)],
                  session = ud\<lparr>upload := None\<rparr>, store = db'\<rparr>))"

definition save_document_from_callback :: "int \<Rightarrow> user_data \<Rightarrow> database \<Rightarrow> outcome" where
  "save_document_from_callback user_id ud db =
     (case upload ud of
        None \<Rightarrow> \<lparr>result = Inr END, replies = [ErrorGeneric], session = ud, store = db\<rparr>
      | Some upload_data \<Rightarrow>
          if up_file_id upload_data = []
          then \<lparr>result = Inr END, replies = [ErrorGeneric], session = ud, store = db\<rparr>
          else
            (case insert_document user_id
                    (case up_name upload_data of
                       None \<Rightarrow> default_document_name | Some n \<Rightarrow> n)
                    (up_file_id upload_data) (up_file_name upload_data)
                    (Some (up_file_type upload_data)) (up_start_date upload_data)
                    (up_end_date upload_data) (up_template_id upload_data) None db of
               Inl e \<Rightarrow> \<lparr>result = Inl e, replies = [], session = ud, store = db\<rparr>
             | Inr (doc_id, db') \<Rightarrow>
                 \<lparr>result = Inr END,
                  replies = [case doc_id of
                               None \<Rightarrow> ErrorGeneric
                             | Some i \<Rightarrow>
                                 if i = 0 then ErrorGeneric
                                 else DocumentSaved
                                        (case up_name upload_data of
                                           None \<Rightarrow> ''Dokument'' | Some n \<Rightarrow> n)
                                        (up_start_date upload_data)
                                        (up_end_date upload_data) i],
                  session = ud\<lparr>upload := None\<rparr>, store = db'\<rparr>))"

text \<open>
  \<open>show_template_selection\<close> reads the draft with \<open>context.user_data["upload"]\<close>
  (KeyError without one) after the query for the templates.
\<close>

definition show_template_selection :: "int \<Rightarrow> user_data \<Rightarrow> database \<Rightarrow> outcome" where
  "show_template_selection user_id ud db =
     (let tmpls = get_user_templates user_id db
      in case upload ud of
           None \<Rightarrow> \<lparr>result = Inl KeyError, replies = [], session = ud, store = db\<rparr>
         | Some draft \<Rightarrow>
             if tmpls = []
             then save_document_from_callback user_id ud db
             else
               (case build_templates_keyboard tmpls 0 8 True of
                  Inl e \<Rightarrow> \<lparr>result = Inl e, replies = [], session = ud, store = db\<rparr>
                | Inr kb \<Rightarrow>
                    \<lparr>result = Inr WAITING_TEMPLATE,
                     replies = [EndDateChosenSelectTemplate (up_end_date draft) kb],
                     session = ud, store = db\<rparr>))"

definition upload_end_date_callback ::
  "date \<Rightarrow> int \<Rightarrow> string \<Rightarrow> user_data \<Rightarrow> database \<Rightarrow> outcome" where
  "upload_end_date_callback today user_id query_data ud db =
     (let data = split CHR ''|'' query_data
      in if length data < 2
         then \<lparr>result = Inr WAITING_END_DATE, replies = [Answer], session = ud, store = db\<rparr>
         else
           (case end_date_option (data ! 1) today of
              Inl e \<Rightarrow> \<lparr>result = Inl e, replies = [Answer], session = ud, store = db\<rparr>
            | Inr NoChoice \<Rightarrow>
                \<lparr>result = Inr WAITING_END_DATE, replies = [Answer],
                 session = ud, store = db\<rparr>
            | Inr ChooseManual \<Rightarrow>
                (case upload ud of
                   None \<Rightarrow>
                     \<lparr>result = Inl KeyError, replies = [Answer, EnterEndDate],
                      session = ud, store = db\<rparr>
                 | Some draft \<Rightarrow>
                     \<lparr>result = Inr WAITING_END_DATE, replies = [Answer, EnterEndDate],
                      session = ud\<lparr>upload := Some (draft\<lparr>up_waiting_manual_end := True\<rparr>)\<rparr>,
                      store = db\<rparr>)
            | Inr (Chosen selected_date) \<Rightarrow>
                (case upload ud of
                   None \<Rightarrow>
                     \<lparr>result = Inl KeyError, replies = [Answer], session = ud, store = db\<rparr>
                 | Some draft \<Rightarrow>
                     (let out = show_template_selection user_id
                                  (ud\<lparr>upload := Some (draft\<lparr>up_end_date := selected_date\<rparr>)\<rparr>) db
                      in out\<lparr>replies := Answer # replies out\<rparr>))))"

definition upload_end_date_manual ::
  "int \<Rightarrow> string \<Rightarrow> user_data \<Rightarrow> database \<Rightarrow> outcome" where
  "upload_end_date_manual user_id message_text ud db =
     (case upload ud of
        None \<Rightarrow>
          \<lparr>result = Inr WAITING_END_DATE, replies = [], session = ud, store = db\<rparr>
      | Some draft \<Rightarrow>
          if \<not> up_waiting_manual_end draft
          then \<lparr>result = Inr WAITING_END_DATE, replies = [], session = ud, store = db\<rparr>
          else
            (case parse_with_formats manual_formats (strip message_text) of
               None \<Rightarrow>
                 \<lparr>result = Inr WAITING_END_DATE, replies = [BadEndDate],
                  session = ud, store = db\<rparr>
             | Some parsed_date \<Rightarrow>
                 (let ud' = ud\<lparr>upload := Some
                              (draft\<lparr>up_end_date := Some parsed_date,
                                     up_waiting_manual_end := False\<rparr>)\<rparr>;
                      tmpls = get_user_templates user_id db
                  in if tmpls = []
                     then save_document user_id ud' db
                     else
                       (case build_templates_keyboard tmpls 0 8 True of
                          Inl e \<Rightarrow>
                            \<lparr>result = Inl e, replies = [], session = ud', store = db\<rparr>
                        | Inr kb \<Rightarrow>
                            \<lparr>result = Inr WAITING_TEMPLATE, replies = [SelectTemplate kb],
                             session = ud', store = db\<rparr>))))"

definition upload_template_callback ::
  "int \<Rightarrow> string \<Rightarrow> user_data \<Rightarrow> database \<Rightarrow> outcome" where
  "upload_template_callback user_id query_data ud db =
     (let data = split CHR ''|'' query_data
      in if length data < 3
         then \<lparr>result = Inr WAITING_TEMPLATE, replies = [Answer], session = ud, store = db\<rparr>
         else
           (let template_option = data ! 2;
                template_id =
                  (if template_option = ''skip'' then None
                   else (case py_int template_option of
                           Inr i \<Rightarrow> Some i
                         | Inl e \<Rightarrow> None))
            in case upload ud of
                 None \<Rightarrow>
                   \<lparr>result = Inl KeyError, replies = [Answer], session = ud, store = db\<rparr>
               | Some draft \<Rightarrow>
                   (let out = save_document_from_callback user_id
                                (ud\<lparr>upload := Some (draft\<lparr>up_template_id := template_id\<rparr>)\<rparr>) db
                    in out\<lparr>replies := Answer # replies out\<rparr>)))"

definition upload_cancel :: "user_data \<Rightarrow> database \<Rightarrow> outcome" where
  "upload_cancel ud db =
     \<lparr>result = Inr END, replies = [UploadCancelled],
      session = ud\<lparr>upload := None\<rparr>, store = db\<rparr>"

section \<open>The updates of one user (bot.py)\<close>

text \<open>
  \<open>cmd_cancel\<close> is the handler of the command \<open>/cancel\<close>: it clears \<open>user_data\<close>.
  It is registered as a plain command handler, so the \<open>ConversationHandler.END\<close> it
  returns is not seen by the conversation.
\<close>

definition cmd_cancel :: "user_data \<Rightarrow> user_data" where
  "cmd_cancel ud = \<lparr>upload = None\<rparr>"

text \<open>The commands of \<open>get_command_handlers\<close>, registered before the conversation.\<close>

definition command_names :: "string list" where
  "command_names = [''start'', ''help'', ''mydocs'', ''templates'', ''cancel'', ''stats'']"

text \<open>
  The updates that reach the bot from one user in one chat, which is what a
  conversation is keyed by: a message with a document or photos, a text message that is
  not a command, a command (by its name), a callback query (by its data).
  \<open>StoreChanged\<close> stands for everything that changes the record store between two
  updates of this conversation and is not modelled here (the other handlers, other
  users, the reminder job): the store is then any store. A second chat of the same
  user, whose conversation would share \<open>user_data\<close>, is not modelled.
\<close>

datatype update =
    FileMessage tg_message
  | TextMessage string
  | CommandMessage string
  | CallbackQuery string
  | StoreChanged database

record bot_state =
  bs_conversation :: "upload_state option"
  bs_user_data :: user_data
  bs_store :: database

text \<open>
  The state the \<open>ConversationHandler\<close> keeps after a handler: unchanged when the
  handler raised, none after \<open>END\<close>, the returned state otherwise.
\<close>

definition next_conversation ::
  "upload_state option \<Rightarrow> py_error + upload_state \<Rightarrow> upload_state option" where
  "next_conversation conv r =
     (case r of Inl e \<Rightarrow> conv | Inr s \<Rightarrow> if s = END then None else Some s)"

text \<open>
  \<open>conversation_update\<close>: the handler of the conversation that takes an update, if
  one does, applied to it. With \<open>allow_reentry\<close> the entry points (a document or a
  photo) are tried first in every state; then the handlers of the current state (text
  that is not a command, or a callback query whose data match the pattern, for which
  \<open>dispatch_callback\<close> gives the handler); then the fallback, which takes every
  command.
\<close>

definition conversation_update ::
  "config \<Rightarrow> tg_user \<Rightarrow> date \<Rightarrow> update \<Rightarrow> upload_state option \<Rightarrow> user_data \<Rightarrow> database \<Rightarrow>
   outcome option" where
  "conversation_update cfg user today upd conv ud db =
     (case upd of
        FileMessage message \<Rightarrow>
          if msg_document message \<noteq> None \<or> msg_photo message \<noteq> []
          then Some (upload_start cfg user message ud db) else None
      | TextMessage text \<Rightarrow>
          if conv = Some WAITING_NAME then Some (upload_name today text ud db)
          else if conv = Some WAITING_START_DATE
          then Some (upload_start_date_manual today text ud db)
          else if conv = Some WAITING_END_DATE
          then Some (upload_end_date_manual (tg_id user) text ud db)
          else None
      | CommandMessage command \<Rightarrow>
          if conv = None then None else Some (upload_cancel ud db)
      | CallbackQuery data \<Rightarrow>
          (case dispatch_callback conv data of
             None \<Rightarrow> None
           | Some handler \<Rightarrow>
               if handler = H_upload_start_date_callback
               then Some (upload_start_date_callback today data ud db)
               else if handler = H_upload_end_date_callback
               then Some (upload_end_date_callback today (tg_id user) data ud db)
               else if handler = H_upload_template_callback
               then Some (upload_template_callback (tg_id user) data ud db)
               else None)
      | StoreChanged db' \<Rightarrow> None)"

text \<open>
  \<open>process_update\<close>: one update, handled by the first handler that accepts it in the
  registration order of \<open>main\<close>. A registered command goes to its command handler and
  never reaches the conversation: \<open>/cancel\<close> clears \<open>user_data\<close>, \<open>/start\<close> commits
  the user row, the others only read. Everything else goes to the conversation if one
  of its handlers accepts it; the handlers registered after the conversation neither
  read nor write the draft.
\<close>

definition process_update :: "config \<Rightarrow> tg_user \<Rightarrow> date \<times> update \<Rightarrow> bot_state \<Rightarrow> bot_state" where
  "process_update cfg user ev st =
     (case snd ev of
        StoreChanged db' \<Rightarrow> st\<lparr>bs_store := db'\<rparr>
      | CommandMessage command \<Rightarrow>
          if command = ''cancel'' then st\<lparr>bs_user_data := cmd_cancel (bs_user_data st)\<rparr>
          else if command = ''start''
          then st\<lparr>bs_store := snd (get_or_create_user (tg_id user) (tg_username user)
                                      (tg_first_name user) (bs_store st))\<rparr>
          else if command \<in> set command_names then st
          else
            (case conversation_update cfg user (fst ev) (snd ev) (bs_conversation st)
                    (bs_user_data st) (bs_store st) of
               None \<Rightarrow> st
             | Some out \<Rightarrow>
                 \<lparr>bs_conversation = next_conversation (bs_conversation st) (result out),
                  bs_user_data = session out, bs_store = store out\<rparr>)
      | _ \<Rightarrow>
          (case conversation_update cfg user (fst ev) (snd ev) (bs_conversation st)
                  (bs_user_data st) (bs_store st) of
             None \<Rightarrow> st
           | Some out \<Rightarrow>
               \<lparr>bs_conversation = next_conversation (bs_conversation st) (result out),
                bs_user_data = session out, bs_store = store out\<rparr>))"

fun process_updates :: "config \<Rightarrow> tg_user \<Rightarrow> (date \<times> update) list \<Rightarrow> bot_state \<Rightarrow> bot_state" where
  "process_updates cfg user [] st = st"
| "process_updates cfg user (ev # evs) st = process_updates cfg user evs (process_update cfg user ev st)"




definition same_file :: "user_data \<Rightarrow> outcome \<Rightarrow> bool" where
  "same_file ud out \<longleftrightarrow>
     (case upload (session out) of
        None \<Rightarrow> True
      | Some draft' \<Rightarrow>
          (case upload ud of
             None \<Rightarrow> False
           | Some draft \<Rightarrow> up_file_id draft' = up_file_id draft))"

definition same_draft :: "user_data \<Rightarrow> outcome \<Rightarrow> bool" where
  "same_draft ud out \<longleftrightarrow>
     (case upload (session out) of
        None \<Rightarrow> True
      | Some draft' \<Rightarrow>
          (case upload ud of
             None \<Rightarrow> False
           | Some draft \<Rightarrow>
               up_file_id draft' = up_file_id draft \<and>
               up_template_id draft' = up_template_id draft))"

text \<open>
  Fixtures to run the definitions on: a user without documents or templates and a
  message with a file \<open>scan.pdf\<close>; the draft \<open>upload_start\<close> makes of it, then named;
  a configuration; the store of the reminder examples, whose user 501 owns three
  documents and no template, and the same store with one template.
\<close>

definition example_user :: tg_user where
  "example_user = \<lparr>tg_id = 777, tg_username = None, tg_first_name = Some ''Bob''\<rparr>"

definition example_message :: tg_message where
  "example_message =
     \<lparr>msg_document = Some \<lparr>doc_file_name = Some ''scan.pdf'', doc_file_size = Some 2048,
                            doc_file_id = ''file-1''\<rparr>,
      msg_photo = []\<rparr>"

definition example_draft :: upload_draft where
  "example_draft =
     \<lparr>up_file_id = ''file-1'', up_file_name = Some ''scan.pdf'', up_file_type = ''pdf'',
      up_name = Some ''Passport'', up_start_date = None, up_end_date = None,
      up_template_id = None, up_waiting_manual_start = False,
      up_waiting_manual_end = False\<rparr>"

definition example_config :: config where
  "example_config =
     \<lparr>MAX_DOCUMENTS_PER_USER = 3, ALLOWED_EXTENSIONS = [''.pdf'', ''.jpg''],
      MAX_FILE_SIZE = 1000000\<rparr>"

definition example_db_with_template :: database where
  "example_db_with_template =
     example_db\<lparr>templates :=
       [\<lparr>t_id = 1, t_user_id = 501, t_name = ''Travel'', t_description = None\<rparr>]\<rparr>"





section \<open>Vocabulary for the manual date entry\<close>

text \<open>
  \<open>directive_text d g\<close>: the text \<open>g\<close> is one that the group of directive \<open>d\<close> can
  match, that is, it matches one of the directive's alternatives from its first to its
  last character. \<open>number g\<close> is the integer \<open>int(g)\<close> that \<open>_strptime\<close> reads from
  a group (a leading space of a day is ignored).
\<close>

definition directive_text :: "directive \<Rightarrow> string \<Rightarrow> bool" where
  "directive_text d g = list_ex (\<lambda>alt. list_all2 in_class alt g) (alternatives d)"

definition number :: "string \<Rightarrow> int" where
  "number g = digits_value (filter isdigit g)"

text \<open>
  The statement of the specification, in its words: the three literal formats
  DD.MM.YYYY, DD/MM/YYYY and YYYY-MM-DD, where D, M and Y stand for one digit each and
  every other character for itself.
\<close>

fun literal_format :: "string \<Rightarrow> string \<Rightarrow> bool" where
  "literal_format [] [] = True"
| "literal_format (p # ps) (c # cs) =
     ((if p = CHR ''D'' \<or> p = CHR ''M'' \<or> p = CHR ''Y'' then isdigit c else c = p) \<and>
      literal_format ps cs)"
| "literal_format _ _ = False"

definition spec_literal_formats :: "string \<Rightarrow> bool" where
  "spec_literal_formats s =
     (literal_format ''DD.MM.YYYY'' s \<or> literal_format ''DD/MM/YYYY'' s \<or>
      literal_format ''YYYY-MM-DD'' s)"

text \<open>
  The quick-date options as the specification lists them: the option and its offset
  from today in days.
\<close>

definition spec_quick_offsets :: "(string \<times> int) list" where
  "spec_quick_offsets =
     [(''today'', 0), (''+1m'', 30), (''+3m'', 90), (''+6m'', 180),
      (''+1y'', 365), (''+2y'', 730), (''+5y'', 1825)]"

section \<open>Properties of the record store\<close>

text \<open>
  Claim C9. \<open>delete_document\<close> on a document that does not exist or belongs to
  another user returns False, leaves the store as it was, and the only statement its
  cursor has executed is the SELECT: no DELETE ran. Otherwise it returns True, the
  statements its cursor has executed are, in this order, the SELECT, the DELETE on
  \<open>reminders_sent\<close> and the DELETE on \<open>documents\<close>, and the committed store is
  the old one without the document's ledger rows and without the document row.
\<close>

theorem delete_document_dependency_order:
  "((\<forall>d \<in> set (documents db). \<not> (d_id d = doc_id \<and> d_user_id d = user_id)) \<longrightarrow>
      fst (delete_document doc_id user_id db) = False \<and>
      cur_db (snd (delete_document doc_id user_id db)) = db \<and>
      cur_executed (snd (delete_document doc_id user_id db)) =
        [SelectDocumentId doc_id user_id]) \<and>
   ((\<exists>d \<in> set (documents db). d_id d = doc_id \<and> d_user_id d = user_id) \<longrightarrow>
      fst (delete_document doc_id user_id db) = True \<and>
      cur_executed (snd (delete_document doc_id user_id db)) =
        [SelectDocumentId doc_id user_id, DeleteRemindersSent doc_id,
         DeleteDocuments doc_id user_id] \<and>
      cur_db (snd (delete_document doc_id user_id db)) =
        db\<lparr>documents := filter (\<lambda>d. \<not> (d_id d = doc_id \<and> d_user_id d = user_id))
                                (documents db),
           reminders_sent := filter (\<lambda>r. fst r \<noteq> doc_id) (reminders_sent db)\<rparr>)"
proof (intro conjI impI)
  assume a: "\<forall>d \<in> set (documents db). \<not> (d_id d = doc_id \<and> d_user_id d = user_id)"
  then have "filter (\<lambda>d. d_id d = doc_id \<and> d_user_id d = user_id) (documents db) = []"
    by (simp add: filter_empty_conv)
  then have r: "delete_document doc_id user_id db =
      (False, execute (SelectDocumentId doc_id user_id) (new_cursor db))"
    by (simp add: delete_document_def new_cursor_def)
  show "fst (delete_document doc_id user_id db) = False" by (simp add: r)
  show "cur_db (snd (delete_document doc_id user_id db)) = db"
    by (simp add: r new_cursor_def)
  show "cur_executed (snd (delete_document doc_id user_id db)) =
        [SelectDocumentId doc_id user_id]"
    by (simp add: r new_cursor_def)
next
  assume a: "\<exists>d \<in> set (documents db). d_id d = doc_id \<and> d_user_id d = user_id"
  then have n: "filter (\<lambda>d. d_id d = doc_id \<and> d_user_id d = user_id) (documents db) \<noteq> []"
    by (simp add: filter_empty_conv)
  then have l: "0 < length (filter (\<lambda>d. d_id d = doc_id \<and> d_user_id d = user_id) (documents db))"
    by simp
  show "fst (delete_document doc_id user_id db) = True"
    using n l by (simp add: delete_document_def new_cursor_def Let_def)
  show "cur_executed (snd (delete_document doc_id user_id db)) =
        [SelectDocumentId doc_id user_id, DeleteRemindersSent doc_id,
         DeleteDocuments doc_id user_id]"
    using n by (simp add: delete_document_def new_cursor_def Let_def)
  show "cur_db (snd (delete_document doc_id user_id db)) =
        db\<lparr>documents := filter (\<lambda>d. \<not> (d_id d = doc_id \<and> d_user_id d = user_id))
                                (documents db),
           reminders_sent := filter (\<lambda>r. fst r \<noteq> doc_id) (reminders_sent db)\<rparr>"
    using n by (simp add: delete_document_def new_cursor_def Let_def)
qed

theorem delete_document_dependency_order_witness:
  "fst (delete_document 1 501 example_db) = True \<and>
   cur_executed (snd (delete_document 1 501 example_db)) =
     [SelectDocumentId 1 501, DeleteRemindersSent 1, DeleteDocuments 1 501] \<and>
   map d_id (documents (cur_db (snd (delete_document 1 501 example_db)))) = [2, 3] \<and>
   reminders_sent (cur_db (snd (delete_document 1 501 example_db))) = [] \<and>
   fst (delete_document 1 777 example_db) = False \<and>
   cur_db (snd (delete_document 1 777 example_db)) = example_db \<and>
   cur_executed (snd (delete_document 1 777 example_db)) = [SelectDocumentId 1 777]"
proof -
  have h1: "\<exists>d \<in> set (documents example_db). d_id d = 1 \<and> d_user_id d = 501"
    by (simp add: example_db_def)
  have h2: "\<forall>d \<in> set (documents example_db). \<not> (d_id d = 1 \<and> d_user_id d = 777)"
    by (simp add: example_db_def)
  note t1 = delete_document_dependency_order[of example_db 1 501]
  note t2 = delete_document_dependency_order[of example_db 1 777]
  from t1 h1 have a: "fst (delete_document 1 501 example_db) = True" by blast
  from t1 h1 have b: "cur_executed (snd (delete_document 1 501 example_db)) =
     [SelectDocumentId 1 501, DeleteRemindersSent 1, DeleteDocuments 1 501]" by blast
  from t1 h1 have "cur_db (snd (delete_document 1 501 example_db)) =
        example_db\<lparr>documents := filter (\<lambda>d. \<not> (d_id d = 1 \<and> d_user_id d = 501))
                                (documents example_db),
           reminders_sent := filter (\<lambda>r. fst r \<noteq> 1) (reminders_sent example_db)\<rparr>" by blast
  then have c: "map d_id (documents (cur_db (snd (delete_document 1 501 example_db)))) = [2, 3]"
    and d: "reminders_sent (cur_db (snd (delete_document 1 501 example_db))) = []"
    by (simp_all add: example_db_def)
  from t2 h2 have e: "fst (delete_document 1 777 example_db) = False" by blast
  from t2 h2 have f: "cur_db (snd (delete_document 1 777 example_db)) = example_db" by blast
  from t2 h2 have g: "cur_executed (snd (delete_document 1 777 example_db)) =
     [SelectDocumentId 1 777]" by blast
  from a b c d e f g show ?thesis by (intro conjI)
qed

section \<open>Properties of the reminder job\<close>

lemma succeeded_append: "succeeded (a @ b) = succeeded a @ succeeded b"
  by (simp add: succeeded_def)

lemma succeeded_subset: "set (succeeded atts) \<subseteq> set (map att_pair atts)"
  by (auto simp: succeeded_def)

lemma advances_refl: "advances st [] st"
  by (simp add: advances_def succeeded_def)

lemma advances_trans:
  assumes "advances st a st'" and "advances st' b st''"
  shows "advances st (a @ b) st''"
proof -
  have s: "set (succeeded b) \<subseteq> set (map att_pair b)" by (rule succeeded_subset)
  have d: "distinct (succeeded a @ succeeded b)"
    using assms s unfolding advances_def by auto
  have i: "set (map att_pair (a @ b)) \<inter> set (reminders_sent (job_db st)) = {}"
    using assms unfolding advances_def by auto
  show ?thesis
    using assms d i unfolding advances_def succeeded_append
    by (simp add: Un_assoc)
qed

lemma is_reminder_sent_iff:
  "is_reminder_sent doc_id days db \<longleftrightarrow> (doc_id, days) \<in> set (reminders_sent db)"
  by (auto simp: is_reminder_sent_def filter_empty_conv)

lemma reminders_sent_mark:
  "set (reminders_sent (mark_reminder_sent doc_id days db)) =
   insert (doc_id, days) (set (reminders_sent db))"
  by (auto simp: mark_reminder_sent_def)

lemma mark_other_tables:
  "users (mark_reminder_sent doc_id days db) = users db"
  "templates (mark_reminder_sent doc_id days db) = templates db"
  "documents (mark_reminder_sent doc_id days db) = documents db"
  "documents_seq (mark_reminder_sent doc_id days db) = documents_seq db"
  by (simp_all add: mark_reminder_sent_def)

text \<open>One iteration of the inner loop on a row whose pair is not in the ledger.\<close>

lemma remind_documents_attempt:
  assumes "\<not> is_reminder_sent (d_id (fst doc)) days (job_db st)"
  shows "\<exists>ok st1.
           remind_documents (recording send) days (doc # docs) st =
             remind_documents (recording send) days docs st1 \<and>
           advances st [(doc, days, ok)] st1"
proof -
  define msg where "msg = \<lparr>rm_name = d_name (fst doc), rm_end_date = d_end_date (fst doc),
                           rm_urgency = urgency_of days\<rparr>"
  obtain ok tr' where s: "send (fst (job_bot st)) (u_telegram_id (snd doc)) msg = (ok, tr')"
    by (cases "send (fst (job_bot st)) (u_telegram_id (snd doc)) msg") blast
  have r: "recording send (job_bot st) (u_telegram_id (snd doc)) msg =
             (ok, (tr', snd (job_bot st) @ [(u_telegram_id (snd doc), msg, ok)]))"
    by (simp add: recording_def s)
  show ?thesis
  proof (cases ok)
    case True
    define st1 where "st1 = st\<lparr>job_db := mark_reminder_sent (d_id (fst doc)) days (job_db st),
        job_bot := (tr', snd (job_bot st) @ [(u_telegram_id (snd doc), msg, ok)]),
        sent_count := sent_count st + 1,
        job_log := job_log st @ [ReminderSent (d_id (fst doc)) (u_telegram_id (snd doc)) days]\<rparr>"
    have e: "remind_documents (recording send) days (doc # docs) st =
             remind_documents (recording send) days docs st1"
      using assms r True by (simp add: st1_def Let_def msg_def)
    have a: "advances st [(doc, days, ok)] st1"
      using assms True
      by (simp add: advances_def st1_def succeeded_def att_pair_def att_ok_def att_call_def
            att_line_def msg_def reminders_sent_mark mark_other_tables is_reminder_sent_iff)
    from e a show ?thesis by blast
  next
    case False
    define st1 where "st1 = st\<lparr>
        job_bot := (tr', snd (job_bot st) @ [(u_telegram_id (snd doc), msg, ok)]),
        job_log := job_log st @ [FailedToSend (d_id (fst doc)) (u_telegram_id (snd doc))]\<rparr>"
    have e: "remind_documents (recording send) days (doc # docs) st =
             remind_documents (recording send) days docs st1"
      using assms r False by (simp add: st1_def Let_def msg_def)
    have a: "advances st [(doc, days, ok)] st1"
      using assms False
      by (simp add: advances_def st1_def succeeded_def att_pair_def att_ok_def att_call_def
            att_line_def msg_def is_reminder_sent_iff)
    from e a show ?thesis by blast
  qed
qed

lemma remind_documents_advances:
  "\<exists>atts. advances st atts (remind_documents (recording send) days docs st) \<and>
          (\<forall>doc \<in> set docs. (d_id (fst doc), days) \<in>
             set (reminders_sent (job_db st)) \<union> set (map att_pair atts)) \<and>
          (\<forall>a \<in> set atts. fst a \<in> set docs \<and> fst (snd a) = days)"
proof (induction docs arbitrary: st)
  case Nil
  show ?case using advances_refl[of st] by (intro exI[of _ "[]"]) simp
next
  case (Cons doc docs)
  show ?case
  proof (cases "is_reminder_sent (d_id (fst doc)) days (job_db st)")
    case True
    from Cons.IH[of st] obtain atts where
      "advances st atts (remind_documents (recording send) days docs st)"
      "\<forall>doc \<in> set docs. (d_id (fst doc), days) \<in>
             set (reminders_sent (job_db st)) \<union> set (map att_pair atts)"
      "\<forall>a \<in> set atts. fst a \<in> set docs \<and> fst (snd a) = days"
      by blast
    with True show ?thesis
      by (intro exI[of _ atts]) (auto simp: is_reminder_sent_iff)
  next
    case False
    from remind_documents_attempt[OF False, of send docs] obtain ok st1 where
      e: "remind_documents (recording send) days (doc # docs) st =
             remind_documents (recording send) days docs st1"
      and a: "advances st [(doc, days, ok)] st1" by blast
    from Cons.IH[of st1] obtain atts where n:
      "advances st1 atts (remind_documents (recording send) days docs st1)"
      "\<forall>doc \<in> set docs. (d_id (fst doc), days) \<in>
             set (reminders_sent (job_db st1)) \<union> set (map att_pair atts)"
      "\<forall>a \<in> set atts. fst a \<in> set docs \<and> fst (snd a) = days"
      by blast
    have l: "set (reminders_sent (job_db st1)) \<subseteq>
             set (reminders_sent (job_db st)) \<union> {(d_id (fst doc), days)}"
      using a succeeded_subset[of "[(doc, days, ok)]"]
      by (auto simp: advances_def att_pair_def)
    show ?thesis
    proof (intro exI[of _ "(doc, days, ok) # atts"] conjI)
      show "advances st ((doc, days, ok) # atts)
              (remind_documents (recording send) days (doc # docs) st)"
        using advances_trans[OF a n(1)] e by simp
      show "\<forall>doc' \<in> set (doc # docs). (d_id (fst doc'), days) \<in>
             set (reminders_sent (job_db st)) \<union> set (map att_pair ((doc, days, ok) # atts))"
        using n(2) l by (auto simp: att_pair_def)
      show "\<forall>a \<in> set ((doc, days, ok) # atts). fst a \<in> set (doc # docs) \<and> fst (snd a) = days"
        using n(3) by auto
    qed
  qed
qed

lemma get_expiring_documents_cong:
  "users db' = users db \<Longrightarrow> documents db' = documents db \<Longrightarrow>
   get_expiring_documents today days db' = get_expiring_documents today days db"
  by (simp add: get_expiring_documents_def)

lemma matched_cong:
  "users db' = users db \<Longrightarrow> documents db' = documents db \<Longrightarrow>
   matched today ks db' = matched today ks db"
  by (simp add: matched_def get_expiring_documents_cong[of db' db])

lemma att_matched_cong:
  "users db' = users db \<Longrightarrow> documents db' = documents db \<Longrightarrow>
   att_matched today ks db' a = att_matched today ks db a"
  by (simp add: att_matched_def get_expiring_documents_cong[of db' db])

lemma matched_Cons:
  "matched today (k # ks) db =
   (\<lambda>doc. (d_id (fst doc), k)) ` set (get_expiring_documents today k db) \<union> matched today ks db"
  by (simp add: matched_def)

lemma att_matched_Cons: "att_matched today ks db a \<Longrightarrow> att_matched today (k # ks) db a"
  by (simp add: att_matched_def)

lemma remind_thresholds_advances:
  "\<exists>atts. advances st atts (remind_thresholds (recording send) today ks st) \<and>
          matched today ks (job_db st) \<subseteq>
            set (reminders_sent (job_db st)) \<union> set (map att_pair atts) \<and>
          list_all (att_matched today ks (job_db st)) atts"
proof (induction ks arbitrary: st)
  case Nil
  show ?case using advances_refl[of st] by (intro exI[of _ "[]"]) (simp add: matched_def)
next
  case (Cons k ks)
  define st1 where
    "st1 = remind_documents (recording send) k (get_expiring_documents today k (job_db st)) st"
  obtain a1 where n1:
    "advances st a1 st1"
    "\<forall>doc \<in> set (get_expiring_documents today k (job_db st)). (d_id (fst doc), k) \<in>
             set (reminders_sent (job_db st)) \<union> set (map att_pair a1)"
    "\<forall>a \<in> set a1. fst a \<in> set (get_expiring_documents today k (job_db st)) \<and> fst (snd a) = k"
    using remind_documents_advances[of st send k "get_expiring_documents today k (job_db st)"]
    unfolding st1_def by blast
  from Cons.IH[of st1] obtain a2 where n2:
    "advances st1 a2 (remind_thresholds (recording send) today ks st1)"
    "matched today ks (job_db st1) \<subseteq>
            set (reminders_sent (job_db st1)) \<union> set (map att_pair a2)"
    "list_all (att_matched today ks (job_db st1)) a2"
    by blast
  have u: "users (job_db st1) = users (job_db st)" "documents (job_db st1) = documents (job_db st)"
    using n1(1) by (simp_all add: advances_def)
  have m: "matched today ks (job_db st1) = matched today ks (job_db st)"
    using u by (rule matched_cong)
  have l: "set (reminders_sent (job_db st1)) \<subseteq>
           set (reminders_sent (job_db st)) \<union> set (map att_pair a1)"
    using n1(1) succeeded_subset[of a1] by (auto simp: advances_def)
  have r: "remind_thresholds (recording send) today (k # ks) st =
           remind_thresholds (recording send) today ks st1"
    by (simp add: st1_def)
  show ?case
  proof (intro exI[of _ "a1 @ a2"] conjI)
    show "advances st (a1 @ a2) (remind_thresholds (recording send) today (k # ks) st)"
      using advances_trans[OF n1(1) n2(1)] r by simp
    show "matched today (k # ks) (job_db st) \<subseteq>
            set (reminders_sent (job_db st)) \<union> set (map att_pair (a1 @ a2))"
      using n1(2) n2(2) l unfolding m matched_Cons by auto
    have "list_all (att_matched today (k # ks) (job_db st)) a1"
      using n1(3) by (auto simp: list_all_iff att_matched_def)
    moreover have "list_all (att_matched today (k # ks) (job_db st)) a2"
      using n2(3) att_matched_cong[OF u, of today ks]
      by (auto simp: list_all_iff intro: att_matched_Cons)
    ultimately show "list_all (att_matched today (k # ks) (job_db st)) (a1 @ a2)" by simp
  qed
qed

lemma send_reminders_run:
  assumes "run = send_reminders ks (recording send) today db (tr, [])"
  shows "\<exists>atts.
    snd (job_bot run) = map att_call atts \<and>
    job_log run = map att_line atts \<and>
    list_all (att_matched today ks db) atts \<and>
    users (job_db run) = users db \<and> documents (job_db run) = documents db \<and>
    set (reminders_sent (job_db run)) = set (reminders_sent db) \<union> set (succeeded atts) \<and>
    distinct (succeeded atts) \<and>
    set (map att_pair atts) \<inter> set (reminders_sent db) = {} \<and>
    sent_count run = length (succeeded atts) \<and>
    matched today ks db \<subseteq> set (reminders_sent db) \<union> set (map att_pair atts)"
proof -
  define st0 :: "('a \<times> call list) job_state" where
    "st0 = \<lparr>job_db = db, job_bot = (tr, []), sent_count = 0, job_log = []\<rparr>"
  obtain atts where n:
    "advances st0 atts run"
    "matched today ks (job_db st0) \<subseteq>
       set (reminders_sent (job_db st0)) \<union> set (map att_pair atts)"
    "list_all (att_matched today ks (job_db st0)) atts"
    using remind_thresholds_advances[of st0 send today ks] assms
    unfolding send_reminders_def st0_def by blast
  show ?thesis
    using n by (intro exI[of _ atts]) (simp add: advances_def st0_def)
qed

lemma distinct_count_list_1: "distinct xs \<Longrightarrow> x \<in> set xs \<Longrightarrow> count_list xs x = 1"
  by (induction xs) (auto simp: count_list_0_iff)

text \<open>
  Claim C1, as stated, fails when a delivery fails. On the example store with
  today = 100 the pair (document 2, threshold 0) is eligible: the query for threshold 0
  returns document 2 and the pair is not in the ledger. With a transport whose every
  call raises, each of two successive runs calls the transport for this pair and no
  call returns, so the notification is delivered zero times, not once, and the ledger
  is unchanged.
\<close>

theorem send_reminders_twice_counterexample:
  "map (\<lambda>doc. d_id (fst doc)) (get_expiring_documents 100 0 example_db) = [2] \<and>
   (2, 0) \<notin> set (reminders_sent example_db) \<and>
   map call_summary (snd (job_bot (first_run never_delivers ()))) =
     [(''Visa'', Today, False), (''Passport'', InDaysWeek 7, False)] \<and>
   map call_summary (snd (job_bot (second_run never_delivers ()))) =
     [(''Visa'', Today, False), (''Passport'', InDaysWeek 7, False)] \<and>
   reminders_sent (job_db (second_run never_delivers ())) = reminders_sent example_db"
  by code_simp

text \<open>
  Claim C1, amended. Let \<open>run1\<close> and \<open>run2\<close> be two runs in succession with the same
  \<open>today\<close>, the second on the store and transport state the first one left. The
  calls the transport records and the lines the job logs are those of two lists of
  attempts, each for a row that the query returns for a configured threshold. No pair
  is delivered twice over both runs; the second run makes no attempt for a pair in the
  ledger after the first run, and every attempt it makes is for a pair whose attempt
  failed in the first run; the ledger after both runs is the old one plus the delivered
  pairs. If every call of the first run returned, the second run makes no call at all
  and every eligible pair (returned by a query, not in the ledger before) is delivered
  exactly once. \<open>mark_reminder_sent\<close> on a pair in the ledger is the identity.
\<close>

theorem send_reminders_twice:
  assumes "run1 = send_reminders ks (recording send) today db (tr, [])"
    and "run2 = send_reminders ks (recording send) today (job_db run1) (fst (job_bot run1), [])"
  shows "\<exists>a1 a2.
     snd (job_bot run1) = map att_call a1 \<and> job_log run1 = map att_line a1 \<and>
     snd (job_bot run2) = map att_call a2 \<and> job_log run2 = map att_line a2 \<and>
     list_all (att_matched today ks db) (a1 @ a2) \<and>
     distinct (succeeded (a1 @ a2)) \<and>
     set (map att_pair a2) \<inter> set (reminders_sent (job_db run1)) = {} \<and>
     set (map att_pair a2) \<subseteq> set (map att_pair (filter (\<lambda>a. \<not> att_ok a) a1)) \<and>
     set (reminders_sent (job_db run2)) = set (reminders_sent db) \<union> set (succeeded (a1 @ a2)) \<and>
     (list_all (\<lambda>c. snd (snd c)) (snd (job_bot run1)) \<longrightarrow>
        a2 = [] \<and>
        (\<forall>days \<in> set ks. \<forall>doc \<in> set (get_expiring_documents today days db).
           (d_id (fst doc), days) \<notin> set (reminders_sent db) \<longrightarrow>
           count_list (succeeded (a1 @ a2)) (d_id (fst doc), days) = 1)) \<and>
     (\<forall>doc_id days db'.
        mark_reminder_sent doc_id days (mark_reminder_sent doc_id days db') =
          mark_reminder_sent doc_id days db' \<and>
        ((doc_id, days) \<in> set (reminders_sent db') \<longrightarrow>
           mark_reminder_sent doc_id days db' = db'))"
proof -
  from send_reminders_run[OF assms(1)] obtain a1 where r1:
    "snd (job_bot run1) = map att_call a1" "job_log run1 = map att_line a1"
    "list_all (att_matched today ks db) a1"
    "users (job_db run1) = users db" "documents (job_db run1) = documents db"
    "set (reminders_sent (job_db run1)) = set (reminders_sent db) \<union> set (succeeded a1)"
    "distinct (succeeded a1)"
    "set (map att_pair a1) \<inter> set (reminders_sent db) = {}"
    "sent_count run1 = length (succeeded a1)"
    "matched today ks db \<subseteq> set (reminders_sent db) \<union> set (map att_pair a1)"
    by blast
  from send_reminders_run[OF assms(2)] obtain a2 where r2:
    "snd (job_bot run2) = map att_call a2" "job_log run2 = map att_line a2"
    "list_all (att_matched today ks (job_db run1)) a2"
    "set (reminders_sent (job_db run2)) =
       set (reminders_sent (job_db run1)) \<union> set (succeeded a2)"
    "distinct (succeeded a2)"
    "set (map att_pair a2) \<inter> set (reminders_sent (job_db run1)) = {}"
    by blast
  have m2: "list_all (att_matched today ks db) a2"
    using r2(3) att_matched_cong[OF r1(4,5), of today ks] by (simp add: list_all_iff)
  have m: "list_all (att_matched today ks db) (a1 @ a2)" using r1(3) m2 by simp
  have s2: "set (succeeded a2) \<subseteq> set (map att_pair a2)" by (rule succeeded_subset)
  have d: "distinct (succeeded (a1 @ a2))"
    unfolding succeeded_append using r1(7) r2(5) r2(6) r1(6) s2 by auto
  have in_matched: "att_pair a \<in> matched today ks db" if "att_matched today ks db a" for a
    using that by (auto simp: att_matched_def matched_def att_pair_def)
  have sub: "set (map att_pair a2) \<subseteq> set (map att_pair (filter (\<lambda>a. \<not> att_ok a) a1))"
  proof
    fix p assume p: "p \<in> set (map att_pair a2)"
    then obtain a where a: "a \<in> set a2" "p = att_pair a" by auto
    then have "p \<in> matched today ks db" using m2 in_matched by (auto simp: list_all_iff)
    then have "p \<in> set (reminders_sent db) \<union> set (map att_pair a1)" using r1(10) by auto
    moreover have "p \<notin> set (reminders_sent db) \<union> set (succeeded a1)"
      using p r2(6) r1(6) by auto
    ultimately have "p \<in> set (map att_pair a1)" "p \<notin> set (succeeded a1)" by auto
    then show "p \<in> set (map att_pair (filter (\<lambda>a. \<not> att_ok a) a1))"
      by (auto simp: succeeded_def)
  qed
  have l: "set (reminders_sent (job_db run2)) =
           set (reminders_sent db) \<union> set (succeeded (a1 @ a2))"
    unfolding succeeded_append using r2(4) r1(6) by auto
  have e: "list_all (\<lambda>c. snd (snd c)) (snd (job_bot run1)) \<longrightarrow>
        a2 = [] \<and>
        (\<forall>days \<in> set ks. \<forall>doc \<in> set (get_expiring_documents today days db).
           (d_id (fst doc), days) \<notin> set (reminders_sent db) \<longrightarrow>
           count_list (succeeded (a1 @ a2)) (d_id (fst doc), days) = 1)"
  proof (intro impI conjI ballI)
    assume ok: "list_all (\<lambda>c. snd (snd c)) (snd (job_bot run1))"
    then have all_ok: "filter (\<lambda>a. \<not> att_ok a) a1 = []"
      unfolding r1(1) by (auto simp: list_all_iff att_call_def att_ok_def filter_empty_conv)
    with sub show a2: "a2 = []" by simp
    fix days doc
    assume h: "days \<in> set ks" "doc \<in> set (get_expiring_documents today days db)"
      "(d_id (fst doc), days) \<notin> set (reminders_sent db)"
    have "(d_id (fst doc), days) \<in> matched today ks db"
      using h(1,2) by (auto simp: matched_def)
    then have "(d_id (fst doc), days) \<in> set (map att_pair a1)" using r1(10) h(3) by auto
    moreover have "filter att_ok a1 = a1" using all_ok by (simp add: filter_empty_conv filter_id_conv)
    ultimately have "(d_id (fst doc), days) \<in> set (succeeded (a1 @ a2))"
      by (simp add: succeeded_def a2)
    with d show "count_list (succeeded (a1 @ a2)) (d_id (fst doc), days) = 1"
      by (rule distinct_count_list_1)
  qed
  have k: "\<forall>doc_id days db'.
        mark_reminder_sent doc_id days (mark_reminder_sent doc_id days db') =
          mark_reminder_sent doc_id days db' \<and>
        ((doc_id, days) \<in> set (reminders_sent db') \<longrightarrow>
           mark_reminder_sent doc_id days db' = db')"
    by (simp add: mark_reminder_sent_def)
  from r1(1,2) r2(1,2) m d r2(6) sub l e k show ?thesis
    by (intro exI[of _ a1] exI[of _ a2] conjI)
qed

theorem send_reminders_twice_witness:
  "\<exists>a1. snd (job_bot (first_run always_delivers ())) = map att_call a1 \<and>
     job_log (first_run always_delivers ()) = map att_line a1 \<and>
     snd (job_bot (second_run always_delivers ())) = [] \<and>
     job_log (second_run always_delivers ()) = [] \<and>
     count_list (succeeded a1) (2, 0) = 1 \<and>
     count_list (succeeded a1) (1, 7) = 1 \<and>
     set (reminders_sent (job_db (second_run always_delivers ()))) =
       set (reminders_sent example_db) \<union> set (succeeded a1)"
proof -
  from send_reminders_twice[OF first_run_def second_run_def, of always_delivers "()"]
  obtain a1 a2 where r:
    "snd (job_bot (first_run always_delivers ())) = map att_call a1"
    "job_log (first_run always_delivers ()) = map att_line a1"
    "snd (job_bot (second_run always_delivers ())) = map att_call a2"
    "job_log (second_run always_delivers ()) = map att_line a2"
    "set (reminders_sent (job_db (second_run always_delivers ()))) =
       set (reminders_sent example_db) \<union> set (succeeded (a1 @ a2))"
    "list_all (\<lambda>c. snd (snd c)) (snd (job_bot (first_run always_delivers ()))) \<longrightarrow>
        a2 = [] \<and>
        (\<forall>days \<in> set [0, 1, 3, 7, 30].
           \<forall>doc \<in> set (get_expiring_documents 100 days example_db).
           (d_id (fst doc), days) \<notin> set (reminders_sent example_db) \<longrightarrow>
           count_list (succeeded (a1 @ a2)) (d_id (fst doc), days) = 1)"
    by blast
  have ok: "list_all (\<lambda>c. snd (snd c)) (snd (job_bot (first_run always_delivers ())))"
    by code_simp
  from r(6) ok have a2: "a2 = []" by blast
  from r(6) ok have q: "\<forall>days \<in> set [0, 1, 3, 7, 30].
           \<forall>doc \<in> set (get_expiring_documents 100 days example_db).
           (d_id (fst doc), days) \<notin> set (reminders_sent example_db) \<longrightarrow>
           count_list (succeeded (a1 @ a2)) (d_id (fst doc), days) = 1" by blast
  have e0: "get_expiring_documents 100 0 example_db =
      [(hd (tl (documents example_db)), hd (users example_db))]"
    by (simp add: get_expiring_documents_def example_db_def)
  have e7: "get_expiring_documents 100 7 example_db =
      [(hd (documents example_db), hd (users example_db))]"
    by (simp add: get_expiring_documents_def example_db_def)
  have c0: "count_list (succeeded a1) (2, 0) = 1"
    using q[rule_format, of 0 "(hd (tl (documents example_db)), hd (users example_db))"] e0 a2
    by (simp add: example_db_def)
  have c7: "count_list (succeeded a1) (1, 7) = 1"
    using q[rule_format, of 7 "(hd (documents example_db), hd (users example_db))"] e7 a2
    by (simp add: example_db_def)
  from r(1) r(2) r(3) r(4) r(5) a2 c0 c7 show ?thesis
    by (intro exI[of _ a1]) simp
qed


text \<open>
  Claim C3. In a run the transport's record of calls and the job's log are those of
  one list of attempts, each for a row that a query returned for a configured
  threshold; the ledger after the run is the ledger before plus exactly the pairs of
  the attempts whose call returned, and \<open>sent_count\<close> counts them. No attempt is for
  a pair already in the ledger, and the pair of an attempt is in the ledger afterwards
  only if a call for it returned: a failed delivery writes nothing. Every row of every
  query is either in the ledger before the run or attempted, whatever calls failed
  before it.
\<close>

theorem ledger_written_after_delivery:
  assumes "run = send_reminders ks (recording send) today db (tr, [])"
  shows "\<exists>atts.
     snd (job_bot run) = map att_call atts \<and> job_log run = map att_line atts \<and>
     list_all (att_matched today ks db) atts \<and>
     set (reminders_sent (job_db run)) = set (reminders_sent db) \<union> set (succeeded atts) \<and>
     sent_count run = length (succeeded atts) \<and>
     (\<forall>a \<in> set atts.
        att_pair a \<notin> set (reminders_sent db) \<and>
        (att_pair a \<notin> set (succeeded atts) \<longrightarrow>
           att_pair a \<notin> set (reminders_sent (job_db run)))) \<and>
     (\<forall>days \<in> set ks. \<forall>doc \<in> set (get_expiring_documents today days db).
        (d_id (fst doc), days) \<in> set (reminders_sent db) \<union> set (map att_pair atts))"
proof -
  from send_reminders_run[OF assms] obtain atts where r:
    "snd (job_bot run) = map att_call atts" "job_log run = map att_line atts"
    "list_all (att_matched today ks db) atts"
    "users (job_db run) = users db" "documents (job_db run) = documents db"
    "set (reminders_sent (job_db run)) = set (reminders_sent db) \<union> set (succeeded atts)"
    "distinct (succeeded atts)"
    "set (map att_pair atts) \<inter> set (reminders_sent db) = {}"
    "sent_count run = length (succeeded atts)"
    "matched today ks db \<subseteq> set (reminders_sent db) \<union> set (map att_pair atts)"
    by blast
  have f: "\<forall>a \<in> set atts.
        att_pair a \<notin> set (reminders_sent db) \<and>
        (att_pair a \<notin> set (succeeded atts) \<longrightarrow>
           att_pair a \<notin> set (reminders_sent (job_db run)))"
    using r(8) r(6) by auto
  have c: "\<forall>days \<in> set ks. \<forall>doc \<in> set (get_expiring_documents today days db).
        (d_id (fst doc), days) \<in> set (reminders_sent db) \<union> set (map att_pair atts)"
    using r(10) by (auto simp: matched_def)
  from r(1,2,3,6,9) f c show ?thesis by (intro exI[of _ atts] conjI)
qed

theorem ledger_written_after_delivery_witness:
  "\<exists>atts. snd (job_bot (first_run fails_first 0)) = map att_call atts \<and>
     job_log (first_run fails_first 0) = map att_line atts \<and>
     map att_pair atts = [(2, 0), (1, 7)] \<and>
     map att_ok atts = [False, True] \<and>
     set (reminders_sent (job_db (first_run fails_first 0))) = {(1, 30), (1, 7)} \<and>
     sent_count (first_run fails_first 0) = 1"
proof -
  from ledger_written_after_delivery[OF first_run_def, of fails_first 0]
  obtain atts where r:
    "snd (job_bot (first_run fails_first 0)) = map att_call atts"
    "job_log (first_run fails_first 0) = map att_line atts"
    "set (reminders_sent (job_db (first_run fails_first 0))) =
       set (reminders_sent example_db) \<union> set (succeeded atts)"
    "sent_count (first_run fails_first 0) = length (succeeded atts)"
    by blast
  have l: "job_log (first_run fails_first 0) = [FailedToSend 2 501, ReminderSent 1 501 7]"
    by code_simp
  have line: "att_line a = FailedToSend i u \<Longrightarrow> att_pair a = (i, fst (snd a)) \<and> \<not> att_ok a"
    "att_line a = ReminderSent i u k \<Longrightarrow> att_pair a = (i, k) \<and> att_ok a" for a i u k
    by (auto simp: att_line_def att_pair_def att_ok_def split: if_splits)
  from r(2) l obtain x y where xy: "atts = [x, y]" "att_line x = FailedToSend 2 501"
    "att_line y = ReminderSent 1 501 7"
    by (cases atts; cases "tl atts"; cases "tl (tl atts)") auto
  have c: "snd (job_bot (first_run fails_first 0)) =
      [(501, \<lparr>rm_name = ''Visa'', rm_end_date = Some 100, rm_urgency = Today\<rparr>, False),
       (501, \<lparr>rm_name = ''Passport'', rm_end_date = Some 107, rm_urgency = InDaysWeek 7\<rparr>, True)]"
    by code_simp
  have ux: "urgency_of (fst (snd x)) = Today" using r(1) c xy(1) by (simp add: att_call_def)
  have dx: "fst (snd x) = 0" using ux by (auto simp: urgency_of_def split: if_splits)
  have px: "att_pair x = (2, 0)" "\<not> att_ok x" using line(1)[OF xy(2)] dx by simp_all
  have py: "att_pair y = (1, 7)" "att_ok y" using line(2)[OF xy(3)] by simp_all
  have s: "succeeded atts = [(1, 7)]" using xy(1) px py by (simp add: succeeded_def)
  have led: "set (reminders_sent (job_db (first_run fails_first 0))) = {(1, 30), (1, 7)}"
    using r(3) s by (auto simp add: example_db_def)
  have cnt: "sent_count (first_run fails_first 0) = 1" using r(4) s by simp
  from r(1) r(2) px py led cnt xy(1) show ?thesis
    by (intro exI[of _ atts]) simp
qed

section \<open>Properties of the keyboards\<close>

lemma ceil_div_int:
  fixes a b :: int
  assumes "0 < b"
  shows "- (- a div b) = (a + b - 1) div b"
proof -
  define q where "q = (a + b - 1) div b"
  define r where "r = (a + b - 1) mod b"
  have r: "0 \<le> r" "r < b" using assms by (simp_all add: r_def)
  have "a + b - 1 = b * q + r" by (simp add: q_def r_def)
  then have "- a = b * (- q) + (b - 1 - r)" by (simp add: algebra_simps)
  moreover have "0 \<le> b - 1 - r" "b - 1 - r < b" using r by simp_all
  ultimately have "- a div b = - q" by (rule int_div_pos_eq)
  then show ?thesis by (simp add: q_def)
qed

lemma ceiling_count_div:
  assumes "1 \<le> page_size"
  shows "\<lceil>real n / real_of_int page_size\<rceil> = (int n + page_size - 1) div page_size"
proof -
  have "\<lceil>real n / real_of_int page_size\<rceil> = \<lceil>of_int (int n) / (of_int page_size :: real)\<rceil>"
    by simp
  also have "\<dots> = - (- int n div page_size)" by (rule ceiling_divide_eq_div)
  also have "\<dots> = (int n + page_size - 1) div page_size"
    using assms by (intro ceil_div_int) simp
  finally show ?thesis .
qed

lemma pages_pos:
  assumes "1 \<le> page_size" "0 < n"
  shows "1 \<le> (int n + page_size - 1) div page_size"
proof -
  have "page_size \<le> int n + page_size - 1" using assms by simp
  then have "page_size div page_size \<le> (int n + page_size - 1) div page_size"
    using assms by (intro zdiv_mono1) simp_all
  then show ?thesis using assms by simp
qed

text \<open>
  Claim C5, as stated, fails for \<open>build_pagination_keyboard\<close>: for an empty list and
  page size 10 its \<open>total_pages\<close> is 0, where the statement asks for 1.
\<close>

theorem total_pages_minimum_counterexample:
  "pagination_total_pages ([] :: string list) 10 = Inr 0 \<and>
   spec_total_pages (length ([] :: string list)) 10 = 1"
  by (simp add: pagination_total_pages_def spec_total_pages_def)

text \<open>
  Claim C5, amended. For a page size of at least 1, \<open>build_templates_keyboard\<close>
  computes the ceiling of count over page size with a minimum of 1, also for an empty
  list; \<open>build_pagination_keyboard\<close> computes the ceiling of count over page size,
  which agrees with it for every non-empty list and is 0 for the empty list. For 25
  items and page size 10 both give 3.
\<close>

theorem total_pages_ceiling:
  "1 \<le> page_size \<Longrightarrow>
     templates_total_pages tmpls page_size = Inr (spec_total_pages (length tmpls) page_size) \<and>
     pagination_total_pages items page_size =
       Inr \<lceil>real (length items) / real_of_int page_size\<rceil> \<and>
     (items \<noteq> [] \<longrightarrow>
        pagination_total_pages items page_size =
          Inr (spec_total_pages (length items) page_size)) \<and>
     (items = [] \<longrightarrow> pagination_total_pages items page_size = Inr 0) \<and>
     (length tmpls = 25 \<longrightarrow> templates_total_pages tmpls 10 = Inr 3) \<and>
     (length items = 25 \<longrightarrow> pagination_total_pages items 10 = Inr 3)"
proof -
  assume p: "1 \<le> page_size"
  have a: "templates_total_pages tmpls page_size = Inr (spec_total_pages (length tmpls) page_size)"
    using p by (simp add: templates_total_pages_def spec_total_pages_def ceiling_count_div)
  have b: "pagination_total_pages items page_size =
       Inr \<lceil>real (length items) / real_of_int page_size\<rceil>"
    using p by (simp add: pagination_total_pages_def ceiling_count_div)
  have c: "items \<noteq> [] \<longrightarrow>
        pagination_total_pages items page_size =
          Inr (spec_total_pages (length items) page_size)"
  proof
    assume "items \<noteq> []"
    then have "0 < length items" by simp
    from pages_pos[OF p this] show "pagination_total_pages items page_size =
          Inr (spec_total_pages (length items) page_size)"
      using p by (simp add: pagination_total_pages_def spec_total_pages_def ceiling_count_div)
  qed
  have d: "items = [] \<longrightarrow> pagination_total_pages items page_size = Inr 0"
    using p by (simp add: pagination_total_pages_def)
  have e: "length tmpls = 25 \<longrightarrow> templates_total_pages tmpls 10 = Inr 3"
    by (simp add: templates_total_pages_def)
  have f: "length items = 25 \<longrightarrow> pagination_total_pages items 10 = Inr 3"
    by (simp add: pagination_total_pages_def)
  from a b c d e f show ?thesis by (intro conjI)
qed

theorem total_pages_ceiling_witness:
  "templates_total_pages (replicate 25 (0::nat)) 10 = Inr 3 \<and>
   pagination_total_pages (replicate 25 (0::nat)) 10 = Inr 3 \<and>
   pagination_total_pages (replicate 25 (0::nat)) 10 =
     Inr (spec_total_pages (length (replicate 25 (0::nat))) 10) \<and>
   pagination_total_pages ([] :: nat list) 10 = Inr 0"
proof -
  have h: "(1::int) \<le> 10" by simp
  have n: "replicate 25 (0::nat) \<noteq> []" by simp
  have l: "length (replicate 25 (0::nat)) = 25" by simp
  note t = total_pages_ceiling[OF h, of "replicate 25 (0::nat)" "replicate 25 (0::nat)"]
  note t0 = total_pages_ceiling[OF h, of "[] :: nat list" "[] :: nat list"]
  from t l have a: "templates_total_pages (replicate 25 (0::nat)) 10 = Inr 3" by blast
  from t l have b: "pagination_total_pages (replicate 25 (0::nat)) 10 = Inr 3" by blast
  from t n have c: "pagination_total_pages (replicate 25 (0::nat)) 10 =
     Inr (spec_total_pages (length (replicate 25 (0::nat))) 10)" by blast
  from t0 have d: "pagination_total_pages ([] :: nat list) 10 = Inr 0" by blast
  from a b c d show ?thesis by (intro conjI)
qed

section \<open>Properties of the callback routing\<close>

lemma conv_no_doc:
  "first_match (conversation_callback_handlers state @ hs) (CHR ''d'' # rest) = first_match hs (CHR ''d'' # rest)"
  "first_match (conversation_callback_handlers state @ hs) (CHR ''t'' # rest) = first_match hs (CHR ''t'' # rest)"
  by (cases state; simp)+

text \<open>
  Claim C2. For a document id that does not begin with \<open>yes\<close>, in whatever state the
  upload conversation is, the token \<open>doc|delete|id\<close> goes to
  \<open>delete_document_confirm\<close> and the token \<open>doc|delete_yes|id\<close> to
  \<open>delete_document_execute\<close>, and neither handler's pattern matches the other's
  token. The template handlers, registered with the same two patterns, behave alike.
\<close>

theorem delete_tokens_dispatch:
  "take 3 doc_id \<noteq> ''yes'' \<Longrightarrow>
     dispatch_callback conversation (''doc|delete|'' @ doc_id) = Some H_delete_document_confirm \<and>
     dispatch_callback conversation (''doc|delete_yes|'' @ doc_id) = Some H_delete_document_execute \<and>
     \<not> re_match (Prefix ''doc|delete_yes|'') (''doc|delete|'' @ doc_id) \<and>
     \<not> re_match (PrefixNotFollowedBy ''doc|delete|'' ''yes'') (''doc|delete_yes|'' @ doc_id) \<and>
     dispatch_callback conversation (''tmpl|delete|'' @ doc_id) = Some H_delete_template_confirm \<and>
     dispatch_callback conversation (''tmpl|delete_yes|'' @ doc_id) = Some H_delete_template_execute"
  by (cases conversation)
     (simp_all add: dispatch_callback_def get_document_callback_handlers_def
        get_template_handlers_def conv_no_doc numeral_3_eq_3)

theorem delete_tokens_dispatch_witness:
  "dispatch_callback (Some WAITING_TEMPLATE) ''doc|delete|7'' = Some H_delete_document_confirm \<and>
   dispatch_callback (Some WAITING_TEMPLATE) ''doc|delete_yes|7'' = Some H_delete_document_execute"
proof -
  have h: "take 3 ''7'' \<noteq> ''yes''" by simp
  from delete_tokens_dispatch[OF h, of "Some WAITING_TEMPLATE"] show ?thesis by simp
qed

section \<open>Properties of the upload conversation\<close>

lemma get_or_create_user_documents:
  "documents (snd (get_or_create_user tid un fn db)) = documents db"
  "templates (snd (get_or_create_user tid un fn db)) = templates db"
  "reminders_sent (snd (get_or_create_user tid un fn db)) = reminders_sent db"
  by (simp_all add: get_or_create_user_def Let_def split: list.splits)

lemma get_documents_count_get_or_create_user:
  "get_documents_count uid (snd (get_or_create_user tid un fn db)) = get_documents_count uid db"
  by (simp add: get_documents_count_def get_or_create_user_documents)

text \<open>
  Claim C6. When the user already owns at least \<open>MAX_DOCUMENTS_PER_USER\<close> documents,
  \<open>upload_start\<close> ends the conversation with the limit message and returns
  \<open>user_data\<close> as it received it, so no draft is created; the store differs only by
  the user's registration (no document row changes).
\<close>

theorem upload_limit_reached:
  "get_documents_count (tg_id user) db \<ge> MAX_DOCUMENTS_PER_USER cfg \<Longrightarrow>
     upload_start cfg user message ud db =
       \<lparr>result = Inr END,
        replies = [LimitReachedDocuments (MAX_DOCUMENTS_PER_USER cfg)],
        session = ud,
        store = snd (get_or_create_user (tg_id user) (tg_username user)
                       (tg_first_name user) db)\<rparr> \<and>
     documents (snd (get_or_create_user (tg_id user) (tg_username user)
                           (tg_first_name user) db)) = documents db"
  by (simp add: upload_start_def Let_def get_documents_count_get_or_create_user
        get_or_create_user_documents)

theorem upload_limit_reached_witness:
  "get_documents_count 501 example_db \<ge> MAX_DOCUMENTS_PER_USER example_config \<and>
   upload_start example_config \<lparr>tg_id = 501, tg_username = None, tg_first_name = Some ''Ann''\<rparr>
      example_message \<lparr>upload = None\<rparr> example_db =
     \<lparr>result = Inr END, replies = [LimitReachedDocuments 3],
      session = \<lparr>upload = None\<rparr>, store = example_db\<rparr>"
proof -
  have h: "get_documents_count (tg_id \<lparr>tg_id = 501, tg_username = None, tg_first_name = Some ''Ann''\<rparr>) example_db
             \<ge> MAX_DOCUMENTS_PER_USER example_config"
    by (simp add: get_documents_count_def example_db_def example_config_def)
  have g: "snd (get_or_create_user 501 None (Some ''Ann'') example_db) = example_db"
    by (simp add: get_or_create_user_def example_db_def Let_def)
  have m: "MAX_DOCUMENTS_PER_USER example_config = 3" by (simp add: example_config_def)
  from upload_limit_reached[OF h, of example_message "\<lparr>upload = None\<rparr>"] h
  show ?thesis by (simp add: g m)
qed

lemma date_add_in_range:
  "0 < today \<Longrightarrow> 0 \<le> n \<Longrightarrow> today + n \<le> MAXORDINAL \<Longrightarrow> date_add today n = Inr (today + n)"
  by (simp add: date_add_def Let_def)

lemma date_add_past_range:
  "MAXORDINAL < today + n \<Longrightarrow> date_add today n = Inl OverflowError"
  by (simp add: date_add_def Let_def)

lemma quick_rows_in_range:
  assumes "0 < today" "today + 1825 \<le> MAXORDINAL"
  shows "quick_rows today p [] quick_dates =
     Inr [[(QuickCaption ''+1m'', p @ ''|+1m''), (QuickCaption ''+3m'', p @ ''|+3m'')],
          [(QuickCaption ''+6m'', p @ ''|+6m''), (QuickCaption ''+1y'', p @ ''|+1y'')],
          [(QuickCaption ''+2y'', p @ ''|+2y''), (QuickCaption ''+5y'', p @ ''|+5y'')]]"
  using assms by (simp add: quick_dates_def date_add_in_range)

lemma build_date_keyboard_in_range:
  assumes "0 < today" "today + 1825 \<le> MAXORDINAL"
  shows "\<exists>keyboard. build_date_keyboard today p a b q = Inr keyboard"
  using quick_rows_in_range[OF assms] by (simp add: build_date_keyboard_def)

lemma build_date_keyboard_past_range:
  assumes "MAXORDINAL < today + 1825" "0 < today"
  shows "build_date_keyboard today p a b True = Inl OverflowError"
proof -
  have "quick_rows today p [] quick_dates = Inl OverflowError"
    using assms
    by (auto simp add: quick_dates_def date_add_def Let_def split: sum.splits)
  then show ?thesis by (simp add: build_date_keyboard_def)
qed












lemma same_draft_transfer:
  assumes "same_draft ud' out" and "upload ud' = Some d'" and "upload ud = Some d"
    and "up_file_id d' = up_file_id d" and "up_template_id d' = up_template_id d"
  shows "same_draft ud out"
  using assms by (auto simp: same_draft_def split: option.splits)







lemma same_file_transfer:
  assumes "same_file ud' out" and "upload ud' = Some d'" and "upload ud = Some d"
    and "up_file_id d' = up_file_id d"
  shows "same_file ud out"
  using assms by (auto simp: same_file_def split: option.splits)














lemma run_append: "process_updates cfg user (xs @ ys) st = process_updates cfg user ys (process_updates cfg user xs st)"
  by (induction xs arbitrary: st) simp_all

lemma split_code:
  assumes "CHR ''|'' \<notin> set code"
  shows "split CHR ''|'' (''start|'' @ code) = [''start'', code]"
    "split CHR ''|'' (''end|'' @ code) = [''end'', code]"
proof -
  have "split CHR ''|'' code = [code]" using assms by (induction code) auto
  then show "split CHR ''|'' (''start|'' @ code) = [''start'', code]"
    "split CHR ''|'' (''end|'' @ code) = [''end'', code]" by simp_all
qed

lemma quick_option_table:
  "\<forall>entry \<in> set spec_quick_offsets.
     CHR ''|'' \<notin> set (fst entry) \<and> 0 \<le> snd entry \<and> snd entry \<le> 1825 \<and>
     start_date_option (fst entry) today =
       (if fst entry = ''today'' then Inr (Chosen (Some today))
        else selected (date_add today (snd entry))) \<and>
     end_date_option (fst entry) today = start_date_option (fst entry) today \<and>
     (fst entry = ''today'' \<longrightarrow> snd entry = 0)"
  by (simp add: spec_quick_offsets_def start_date_option_def end_date_option_def)

lemma quick_option_value:
  assumes "0 < today" "today \<le> MAXORDINAL" "(code, days) \<in> set spec_quick_offsets"
  shows "start_date_option code today =
           (if today + days \<le> MAXORDINAL then Inr (Chosen (Some (today + days)))
            else Inl OverflowError)"
    and "end_date_option code today = start_date_option code today"
    and "CHR ''|'' \<notin> set code" and "0 \<le> days" and "days \<le> 1825"
proof -
  note t = bspec[OF quick_option_table assms(3), of today, simplified]
  show "CHR ''|'' \<notin> set code" "0 \<le> days" "days \<le> 1825" using t by simp_all
  show "end_date_option code today = start_date_option code today" using t by simp
  show "start_date_option code today =
           (if today + days \<le> MAXORDINAL then Inr (Chosen (Some (today + days)))
            else Inl OverflowError)"
  proof (cases "code = ''today''")
    case True
    then show ?thesis using t assms(2) by simp
  next
    case False
    then show ?thesis using t assms(1)
      by (simp add: selected_def date_add_def Let_def)
  qed
qed

text \<open>
  Claim C4. For each of the seven options of the specification's table, with its
  offset \<open>days\<close>, and today a date: both \<open>if\<close> chains give the date
  \<open>today + days\<close> (ordinals, so a pure day offset) whenever that is a date, that is,
  not after 9999-12-31, and raise OverflowError otherwise. With a draft in the session
  the start callback writes exactly this date to the draft as the start date and the
  end callback writes it as the end date before it goes on to the template selection;
  without a draft both raise KeyError and nothing is written; past 9999-12-31 both
  raise OverflowError and nothing is written.
\<close>

theorem quick_date_offsets:
  assumes "0 < today" and "today \<le> MAXORDINAL" and "(code, days) \<in> set spec_quick_offsets"
  shows "start_date_option code today =
           (if today + days \<le> MAXORDINAL then Inr (Chosen (Some (today + days)))
            else Inl OverflowError) \<and>
         end_date_option code today =
           (if today + days \<le> MAXORDINAL then Inr (Chosen (Some (today + days)))
            else Inl OverflowError) \<and>
         (today + days \<le> MAXORDINAL \<longrightarrow> upload ud = Some draft \<longrightarrow>
            upload (session (upload_start_date_callback today (''start|'' @ code) ud db)) =
              Some (draft\<lparr>up_start_date := Some (today + days)\<rparr>) \<and>
            upload_end_date_callback today user_id (''end|'' @ code) ud db =
              (show_template_selection user_id
                 (ud\<lparr>upload := Some (draft\<lparr>up_end_date := Some (today + days)\<rparr>)\<rparr>) db)
              \<lparr>replies := Answer # replies (show_template_selection user_id
                 (ud\<lparr>upload := Some (draft\<lparr>up_end_date := Some (today + days)\<rparr>)\<rparr>) db)\<rparr>) \<and>
         (today + 1825 \<le> MAXORDINAL \<longrightarrow> upload ud = Some draft \<longrightarrow>
            result (upload_start_date_callback today (''start|'' @ code) ud db) =
              Inr WAITING_END_DATE) \<and>
         (today + days \<le> MAXORDINAL \<longrightarrow> upload ud = None \<longrightarrow>
            upload_start_date_callback today (''start|'' @ code) ud db =
              \<lparr>result = Inl KeyError, replies = [Answer], session = ud, store = db\<rparr> \<and>
            upload_end_date_callback today user_id (''end|'' @ code) ud db =
              \<lparr>result = Inl KeyError, replies = [Answer], session = ud, store = db\<rparr>) \<and>
         (MAXORDINAL < today + days \<longrightarrow>
            upload_start_date_callback today (''start|'' @ code) ud db =
              \<lparr>result = Inl OverflowError, replies = [Answer], session = ud, store = db\<rparr> \<and>
            upload_end_date_callback today user_id (''end|'' @ code) ud db =
              \<lparr>result = Inl OverflowError, replies = [Answer], session = ud, store = db\<rparr>)"
proof -
  note v = quick_option_value[OF assms]
  note s = split_code[OF v(3)]
  have a: "start_date_option code today =
           (if today + days \<le> MAXORDINAL then Inr (Chosen (Some (today + days)))
            else Inl OverflowError)" by (rule v(1))
  have b: "end_date_option code today =
           (if today + days \<le> MAXORDINAL then Inr (Chosen (Some (today + days)))
            else Inl OverflowError)" using v(1) v(2) by simp
  have c: "today + days \<le> MAXORDINAL \<longrightarrow> upload ud = Some draft \<longrightarrow>
            upload (session (upload_start_date_callback today (''start|'' @ code) ud db)) =
              Some (draft\<lparr>up_start_date := Some (today + days)\<rparr>) \<and>
            upload_end_date_callback today user_id (''end|'' @ code) ud db =
              (show_template_selection user_id
                 (ud\<lparr>upload := Some (draft\<lparr>up_end_date := Some (today + days)\<rparr>)\<rparr>) db)
              \<lparr>replies := Answer # replies (show_template_selection user_id
                 (ud\<lparr>upload := Some (draft\<lparr>up_end_date := Some (today + days)\<rparr>)\<rparr>) db)\<rparr>"
    using a b s
    by (simp add: upload_start_date_callback_def upload_end_date_callback_def Let_def
             split: sum.splits)
  have d: "today + 1825 \<le> MAXORDINAL \<longrightarrow> upload ud = Some draft \<longrightarrow>
            result (upload_start_date_callback today (''start|'' @ code) ud db) =
              Inr WAITING_END_DATE"
  proof (intro impI)
    assume h: "today + 1825 \<le> MAXORDINAL" "upload ud = Some draft"
    from build_date_keyboard_in_range[OF assms(1) h(1)] obtain keyboard where
      "build_date_keyboard today ''end'' False True True = Inr keyboard" by blast
    moreover have "today + days \<le> MAXORDINAL" using h(1) v(5) by simp
    ultimately show "result (upload_start_date_callback today (''start|'' @ code) ud db) =
              Inr WAITING_END_DATE"
      using a s h(2) by (simp add: upload_start_date_callback_def Let_def)
  qed
  have e: "today + days \<le> MAXORDINAL \<longrightarrow> upload ud = None \<longrightarrow>
            upload_start_date_callback today (''start|'' @ code) ud db =
              \<lparr>result = Inl KeyError, replies = [Answer], session = ud, store = db\<rparr> \<and>
            upload_end_date_callback today user_id (''end|'' @ code) ud db =
              \<lparr>result = Inl KeyError, replies = [Answer], session = ud, store = db\<rparr>"
    using a b s
    by (simp add: upload_start_date_callback_def upload_end_date_callback_def Let_def)
  have f: "MAXORDINAL < today + days \<longrightarrow>
            upload_start_date_callback today (''start|'' @ code) ud db =
              \<lparr>result = Inl OverflowError, replies = [Answer], session = ud, store = db\<rparr> \<and>
            upload_end_date_callback today user_id (''end|'' @ code) ud db =
              \<lparr>result = Inl OverflowError, replies = [Answer], session = ud, store = db\<rparr>"
    using a b s
    by (simp add: upload_start_date_callback_def upload_end_date_callback_def Let_def)
  from a b c d e f show ?thesis by (intro conjI)
qed

theorem quick_date_offsets_witness:
  "ymd2ord 2024 1 15 = 738900 \<and> ymd2ord 2024 2 14 = 738930 \<and>
   start_date_option ''+1m'' 738900 = Inr (Chosen (Some 738930)) \<and>
   end_date_option ''+1m'' 738900 = Inr (Chosen (Some 738930)) \<and>
   upload (session (upload_start_date_callback 738900 ''start|+1m''
                      \<lparr>upload = Some example_draft\<rparr> example_db)) =
     Some (example_draft\<lparr>up_start_date := Some 738930\<rparr>) \<and>
   result (upload_start_date_callback 738900 ''start|+1m''
             \<lparr>upload = Some example_draft\<rparr> example_db) = Inr WAITING_END_DATE \<and>
   upload_end_date_callback 738900 777 ''end|+1m'' \<lparr>upload = None\<rparr> example_db =
     \<lparr>result = Inl KeyError, replies = [Answer], session = \<lparr>upload = None\<rparr>,
      store = example_db\<rparr> \<and>
   upload_start_date_callback 3652059 ''start|+1m'' \<lparr>upload = Some example_draft\<rparr> example_db =
     \<lparr>result = Inl OverflowError, replies = [Answer],
      session = \<lparr>upload = Some example_draft\<rparr>, store = example_db\<rparr>"
proof -
  have h1: "0 < (738900::int)" by simp
  have h2: "(738900::int) \<le> MAXORDINAL" by (simp add: MAXORDINAL_def)
  have h3: "(''+1m'', 30) \<in> set spec_quick_offsets" by (simp add: spec_quick_offsets_def)
  have g1: "0 < (3652059::int)" by simp
  have g2: "(3652059::int) \<le> MAXORDINAL" by (simp add: MAXORDINAL_def)
  have r1: "(738900::int) + 30 \<le> MAXORDINAL" by (simp add: MAXORDINAL_def)
  have r2: "(738900::int) + 1825 \<le> MAXORDINAL" by (simp add: MAXORDINAL_def)
  have r3: "MAXORDINAL < (3652059::int) + 30" by (simp add: MAXORDINAL_def)
  have u1: "upload \<lparr>upload = Some example_draft\<rparr> = Some example_draft" by simp
  have u2: "upload \<lparr>upload = None\<rparr> = None" by simp
  note t1 = quick_date_offsets[OF h1 h2 h3, where ud = "\<lparr>upload = Some example_draft\<rparr>"
      and draft = example_draft and db = example_db and user_id = 777]
  note t2 = quick_date_offsets[OF h1 h2 h3, where ud = "\<lparr>upload = None\<rparr>"
      and draft = example_draft and db = example_db and user_id = 777]
  note t3 = quick_date_offsets[OF g1 g2 h3, where ud = "\<lparr>upload = Some example_draft\<rparr>"
      and draft = example_draft and db = example_db and user_id = 777]
  have a: "ymd2ord 2024 1 15 = 738900 \<and> ymd2ord 2024 2 14 = 738930" by code_simp
  from t1 r1 have b: "start_date_option ''+1m'' 738900 = Inr (Chosen (Some 738930))" by simp
  from t1 r1 have c: "end_date_option ''+1m'' 738900 = Inr (Chosen (Some 738930))" by simp
  from t1 r1 u1 have d: "upload (session (upload_start_date_callback 738900 ''start|+1m''
                      \<lparr>upload = Some example_draft\<rparr> example_db)) =
     Some (example_draft\<lparr>up_start_date := Some 738930\<rparr>)" by simp
  from t1 r2 u1 have e: "result (upload_start_date_callback 738900 ''start|+1m''
             \<lparr>upload = Some example_draft\<rparr> example_db) = Inr WAITING_END_DATE" by simp
  from t2 r1 u2 have f: "upload_end_date_callback 738900 777 ''end|+1m'' \<lparr>upload = None\<rparr> example_db =
     \<lparr>result = Inl KeyError, replies = [Answer], session = \<lparr>upload = None\<rparr>,
      store = example_db\<rparr>" by simp
  from t3 r3 have g: "upload_start_date_callback 3652059 ''start|+1m'' \<lparr>upload = Some example_draft\<rparr> example_db =
     \<lparr>result = Inl OverflowError, replies = [Answer],
      session = \<lparr>upload = Some example_draft\<rparr>, store = example_db\<rparr>" by simp
  from a b c d e f g show ?thesis by (intro conjI) simp_all
qed












section \<open>Properties of the manual date entry\<close>

lemma match_classes_SomeD:
  "match_classes ks s = Some (g, rest) \<Longrightarrow> s = g @ rest \<and> list_all2 in_class ks g"
proof (induction ks arbitrary: s g rest)
  case Nil
  then show ?case by simp
next
  case (Cons k ks)
  then show ?case
    by (cases s) (auto split: if_splits option.splits)
qed

lemma match_classes_SomeI:
  "list_all2 in_class ks g \<Longrightarrow> match_classes ks (g @ rest) = Some (g, rest)"
  by (induction ks g rule: list_all2_induct) simp_all

lemma match_classes_iff:
  "match_classes ks s = Some (g, rest) \<longleftrightarrow> s = g @ rest \<and> list_all2 in_class ks g"
  using match_classes_SomeD match_classes_SomeI by blast

lemma first_some_SomeD: "first_some xs = Some y \<Longrightarrow> Some y \<in> set xs"
  by (induction xs rule: first_some.induct) auto

lemma regex_match_sound:
  "regex_match ds s = Some (gs, rest) \<Longrightarrow>
     map fst gs = ds \<and> s = concat (map snd gs) @ rest \<and>
     list_all (\<lambda>p. directive_text (fst p) (snd p)) gs"
proof (induction ds arbitrary: s gs rest)
  case Nil
  then show ?case by simp
next
  case (Cons d ds)
  from Cons.prems have "Some (gs, rest) \<in> set
       (map (\<lambda>alt. case match_classes alt s of
                      None \<Rightarrow> None
                    | Some (g, s') \<Rightarrow>
                        (case regex_match ds s' of
                           None \<Rightarrow> None
                         | Some (gs, rest) \<Rightarrow> Some ((d, g) # gs, rest)))
            (alternatives d))"
    by (intro first_some_SomeD) simp
  then obtain alt where alt: "alt \<in> set (alternatives d)"
    and e: "(case match_classes alt s of
                      None \<Rightarrow> None
                    | Some (g, s') \<Rightarrow>
                        (case regex_match ds s' of
                           None \<Rightarrow> None
                         | Some (gs, rest) \<Rightarrow> Some ((d, g) # gs, rest))) = Some (gs, rest)"
    by auto
  from e obtain g s' gs' where m: "match_classes alt s = Some (g, s')"
    and r: "regex_match ds s' = Some (gs', rest)" and gs: "gs = (d, g) # gs'"
    by (auto split: option.splits)
  from m have s: "s = g @ s'" and c: "list_all2 in_class alt g"
    by (simp_all add: match_classes_iff)
  from Cons.IH[OF r] have ih: "map fst gs' = ds" "s' = concat (map snd gs') @ rest"
    "list_all (\<lambda>p. directive_text (fst p) (snd p)) gs'" by simp_all
  have "directive_text d g" using alt c by (auto simp: directive_text_def list_ex_iff)
  then show ?case using gs s ih by simp
qed

lemma first_some_single: "first_some [x] = x"
  by (cases x) simp_all

lemma regex_match_m_Lit:
  assumes dt: "directive_text Dir_m M" and c: "\<not> isdigit c"
  shows "regex_match (Dir_m # Lit c # ds) (M @ c # s) =
     (case regex_match ds s of
        None \<Rightarrow> None
      | Some (gs, rest) \<Rightarrow> Some ((Dir_m, M) # (Lit c, [c]) # gs, rest))"
proof (cases M)
  case Nil
  with dt show ?thesis by (simp add: directive_text_def)
next
  case M: (Cons a M')
  show ?thesis
  proof (cases M')
    case Nil
    with M dt c show ?thesis
      by (auto simp add: directive_text_def isdigit_def first_some_single split: option.splits)
  next
    case M': (Cons b M'')
    show ?thesis
    proof (cases M'')
      case Nil
      with M M' dt c show ?thesis
        by (auto simp add: directive_text_def isdigit_def first_some_single split: option.splits)
    next
      case (Cons x xs)
      with M M' dt show ?thesis by (simp add: directive_text_def)
    qed
  qed
qed

lemma regex_match_d_Lit:
  assumes dt: "directive_text Dir_d D" and c: "\<not> isdigit c"
  shows "regex_match (Dir_d # Lit c # ds) (D @ c # s) =
     (case regex_match ds s of
        None \<Rightarrow> None
      | Some (gs, rest) \<Rightarrow> Some ((Dir_d, D) # (Lit c, [c]) # gs, rest))"
proof (cases D)
  case Nil
  with dt show ?thesis by (simp add: directive_text_def)
next
  case D: (Cons a D')
  show ?thesis
  proof (cases D')
    case Nil
    with D dt c show ?thesis
      by (auto simp add: directive_text_def isdigit_def first_some_single split: option.splits)
  next
    case D': (Cons b D'')
    show ?thesis
    proof (cases D'')
      case Nil
      with D D' dt c show ?thesis
        by (auto simp add: directive_text_def isdigit_def first_some_single split: option.splits)
    next
      case (Cons x xs)
      with D D' dt show ?thesis by (simp add: directive_text_def)
    qed
  qed
qed

lemma regex_match_d_end:
  assumes dt: "directive_text Dir_d D"
  shows "regex_match [Dir_d] D = Some ([(Dir_d, D)], [])"
proof (cases D)
  case Nil
  with dt show ?thesis by (simp add: directive_text_def)
next
  case D: (Cons a D')
  show ?thesis
  proof (cases D')
    case Nil
    with D dt show ?thesis
      by (auto simp add: directive_text_def isdigit_def split: option.splits)
  next
    case D': (Cons b D'')
    show ?thesis
    proof (cases D'')
      case Nil
      with D D' dt show ?thesis
        by (auto simp add: directive_text_def isdigit_def split: option.splits)
    next
      case (Cons x xs)
      with D D' dt show ?thesis by (simp add: directive_text_def)
    qed
  qed
qed

lemma regex_match_Lit:
  "regex_match (Lit c # ds) (c # s) =
     (case regex_match ds s of
        None \<Rightarrow> None
      | Some (gs, rest) \<Rightarrow> Some ((Lit c, [c]) # gs, rest))"
  by (simp add: first_some_single)

lemma regex_match_Y:
  assumes "directive_text Dir_Y Y"
  shows "regex_match (Dir_Y # ds) (Y @ s) =
     (case regex_match ds s of
        None \<Rightarrow> None
      | Some (gs, rest) \<Rightarrow> Some ((Dir_Y, Y) # gs, rest))"
proof -
  from assms have "list_all2 in_class [Digit, Digit, Digit, Digit] Y"
    by (simp add: directive_text_def)
  then have "match_classes [Digit, Digit, Digit, Digit] (Y @ s) = Some (Y, s)"
    by (rule match_classes_SomeI)
  then show ?thesis by (simp add: first_some_single)
qed

lemma regex_match_dmy:
  assumes "directive_text Dir_d D" "directive_text Dir_m M" "directive_text Dir_Y Y"
    and "\<not> isdigit c"
  shows "regex_match [Dir_d, Lit c, Dir_m, Lit c, Dir_Y] (D @ c # M @ c # Y) =
     Some ([(Dir_d, D), (Lit c, [c]), (Dir_m, M), (Lit c, [c]), (Dir_Y, Y)], [])"
proof -
  have y: "regex_match [Dir_Y] Y = Some ([(Dir_Y, Y)], [])"
    using regex_match_Y[OF assms(3), of "[]" "[]"] by simp
  have m: "regex_match [Dir_m, Lit c, Dir_Y] (M @ c # Y) =
     Some ([(Dir_m, M), (Lit c, [c]), (Dir_Y, Y)], [])"
    unfolding regex_match_m_Lit[OF assms(2,4)] y by simp
  show ?thesis
    unfolding regex_match_d_Lit[OF assms(1,4)] m by simp
qed

lemma regex_match_ymd:
  assumes "directive_text Dir_d D" "directive_text Dir_m M" "directive_text Dir_Y Y"
    and "\<not> isdigit c"
  shows "regex_match [Dir_Y, Lit c, Dir_m, Lit c, Dir_d] (Y @ c # M @ c # D) =
     Some ([(Dir_Y, Y), (Lit c, [c]), (Dir_m, M), (Lit c, [c]), (Dir_d, D)], [])"
proof -
  have d: "regex_match [Dir_d] D = Some ([(Dir_d, D)], [])"
    using assms(1) by (rule regex_match_d_end)
  have m: "regex_match [Dir_m, Lit c, Dir_d] (M @ c # D) =
     Some ([(Dir_m, M), (Lit c, [c]), (Dir_d, D)], [])"
    unfolding regex_match_m_Lit[OF assms(2,4)] d by simp
  have l: "regex_match [Lit c, Dir_m, Lit c, Dir_d] (c # M @ c # D) =
     Some ([(Lit c, [c]), (Dir_m, M), (Lit c, [c]), (Dir_d, D)], [])"
    unfolding regex_match_Lit m by simp
  show ?thesis
    unfolding regex_match_Y[OF assms(3)] l by simp
qed

lemma directive_text_Lit: "directive_text (Lit c) g \<longleftrightarrow> g = [c]"
  by (cases g; cases "tl g") (auto simp: directive_text_def)

lemma regex_match_groups5:
  assumes "regex_match [d1, d2, d3, d4, d5] t = Some (gs, rest)"
  obtains g1 g2 g3 g4 g5 where
    "gs = [(d1, g1), (d2, g2), (d3, g3), (d4, g4), (d5, g5)]"
    "t = g1 @ g2 @ g3 @ g4 @ g5 @ rest"
    "directive_text d1 g1" "directive_text d2 g2" "directive_text d3 g3"
    "directive_text d4 g4" "directive_text d5 g5"
proof -
  from regex_match_sound[OF assms] have f: "map fst gs = [d1, d2, d3, d4, d5]"
    and c: "t = concat (map snd gs) @ rest"
    and a: "list_all (\<lambda>p. directive_text (fst p) (snd p)) gs" by simp_all
  from f obtain g1 g2 g3 g4 g5 where
    gs: "gs = [(d1, g1), (d2, g2), (d3, g3), (d4, g4), (d5, g5)]"
    by (auto simp: map_eq_Cons_conv)
  show thesis
    using c a by (intro that[OF gs]) (simp_all add: gs)
qed

lemma strptime_date_dmy_iff:
  assumes c: "\<not> isdigit c"
  shows "strptime_date t [Dir_d, Lit c, Dir_m, Lit c, Dir_Y] = Inr date \<longleftrightarrow>
     (\<exists>D M Y. t = D @ [c] @ M @ [c] @ Y \<and>
        directive_text Dir_d D \<and> directive_text Dir_m M \<and> directive_text Dir_Y Y \<and>
        make_date (number Y) (number M) (number D) = Inr date)"
proof
  assume l: "strptime_date t [Dir_d, Lit c, Dir_m, Lit c, Dir_Y] = Inr date"
  then obtain gs where r: "regex_match [Dir_d, Lit c, Dir_m, Lit c, Dir_Y] t = Some (gs, [])"
    and m: "make_date (group_value Dir_Y gs) (group_value Dir_m gs) (group_value Dir_d gs) = Inr date"
    by (auto simp: strptime_date_def simp del: regex_match.simps split: option.splits if_splits)
  from r obtain D p1 M p2 Y where
    gs: "gs = [(Dir_d, D), (Lit c, p1), (Dir_m, M), (Lit c, p2), (Dir_Y, Y)]"
    and t: "t = D @ p1 @ M @ p2 @ Y @ []"
    and dt: "directive_text Dir_d D" "directive_text (Lit c) p1" "directive_text Dir_m M"
      "directive_text (Lit c) p2" "directive_text Dir_Y Y"
    by (rule regex_match_groups5)
  from dt(2,4) have p: "p1 = [c]" "p2 = [c]" by (simp_all add: directive_text_Lit)
  have "make_date (number Y) (number M) (number D) = Inr date"
    using m by (simp add: gs group_value_def number_def)
  with t p dt(1,3,5) show "\<exists>D M Y. t = D @ [c] @ M @ [c] @ Y \<and>
        directive_text Dir_d D \<and> directive_text Dir_m M \<and> directive_text Dir_Y Y \<and>
        make_date (number Y) (number M) (number D) = Inr date"
    by auto
next
  assume "\<exists>D M Y. t = D @ [c] @ M @ [c] @ Y \<and>
        directive_text Dir_d D \<and> directive_text Dir_m M \<and> directive_text Dir_Y Y \<and>
        make_date (number Y) (number M) (number D) = Inr date"
  then obtain D M Y where t: "t = D @ c # M @ c # Y"
    and dt: "directive_text Dir_d D" "directive_text Dir_m M" "directive_text Dir_Y Y"
    and m: "make_date (number Y) (number M) (number D) = Inr date" by auto
  show "strptime_date t [Dir_d, Lit c, Dir_m, Lit c, Dir_Y] = Inr date"
    unfolding strptime_date_def t regex_match_dmy[OF dt c]
    using m by (simp add: group_value_def number_def)
qed

lemma strptime_date_ymd_iff:
  assumes c: "\<not> isdigit c"
  shows "strptime_date t [Dir_Y, Lit c, Dir_m, Lit c, Dir_d] = Inr date \<longleftrightarrow>
     (\<exists>D M Y. t = Y @ [c] @ M @ [c] @ D \<and>
        directive_text Dir_d D \<and> directive_text Dir_m M \<and> directive_text Dir_Y Y \<and>
        make_date (number Y) (number M) (number D) = Inr date)"
proof
  assume l: "strptime_date t [Dir_Y, Lit c, Dir_m, Lit c, Dir_d] = Inr date"
  then obtain gs where r: "regex_match [Dir_Y, Lit c, Dir_m, Lit c, Dir_d] t = Some (gs, [])"
    and m: "make_date (group_value Dir_Y gs) (group_value Dir_m gs) (group_value Dir_d gs) = Inr date"
    by (auto simp: strptime_date_def simp del: regex_match.simps split: option.splits if_splits)
  from r obtain Y p1 M p2 D where
    gs: "gs = [(Dir_Y, Y), (Lit c, p1), (Dir_m, M), (Lit c, p2), (Dir_d, D)]"
    and t: "t = Y @ p1 @ M @ p2 @ D @ []"
    and dt: "directive_text Dir_Y Y" "directive_text (Lit c) p1" "directive_text Dir_m M"
      "directive_text (Lit c) p2" "directive_text Dir_d D"
    by (rule regex_match_groups5)
  from dt(2,4) have p: "p1 = [c]" "p2 = [c]" by (simp_all add: directive_text_Lit)
  have "make_date (number Y) (number M) (number D) = Inr date"
    using m by (simp add: gs group_value_def number_def)
  with t p dt(1,3,5) show "\<exists>D M Y. t = Y @ [c] @ M @ [c] @ D \<and>
        directive_text Dir_d D \<and> directive_text Dir_m M \<and> directive_text Dir_Y Y \<and>
        make_date (number Y) (number M) (number D) = Inr date"
    by auto
next
  assume "\<exists>D M Y. t = Y @ [c] @ M @ [c] @ D \<and>
        directive_text Dir_d D \<and> directive_text Dir_m M \<and> directive_text Dir_Y Y \<and>
        make_date (number Y) (number M) (number D) = Inr date"
  then obtain D M Y where t: "t = Y @ c # M @ c # D"
    and dt: "directive_text Dir_d D" "directive_text Dir_m M" "directive_text Dir_Y Y"
    and m: "make_date (number Y) (number M) (number D) = Inr date" by auto
  show "strptime_date t [Dir_Y, Lit c, Dir_m, Lit c, Dir_d] = Inr date"
    unfolding strptime_date_def t regex_match_ymd[OF dt c]
    using m by (simp add: group_value_def number_def)
qed

lemma build_templates_keyboard_8:
  "\<exists>kb. build_templates_keyboard tmpls 0 8 select_mode = Inr kb"
  by (simp add: build_templates_keyboard_def templates_total_pages_def Let_def)

lemma separators_not_digits:
  "\<not> isdigit CHR ''.''" "\<not> isdigit CHR ''/''" "\<not> isdigit CHR ''-''"
  by (simp_all add: isdigit_def)

lemma manual_rejected_unchanged:
  assumes "bs_conversation st = Some WAITING_START_DATE \<or>
           bs_conversation st = Some WAITING_END_DATE"
    and "parse_with_formats manual_formats (strip message_text) = None"
  shows "process_update cfg user (today, TextMessage message_text) st = st"
  using assms
  by (auto simp: process_update_def conversation_update_def upload_start_date_manual_def
        upload_end_date_manual_def next_conversation_def split: option.splits)

text \<open>
  Claim C7, as stated, fails: the text \<open>1.1.2024\<close> is none of the three literal
  formats (day and month have one digit) and yet it is accepted, as 2024-01-01; and the
  text \<open>31.02.2024\<close> has the literal format DD.MM.YYYY and is rejected, there being no
  such day.
\<close>

theorem manual_date_formats_counterexample:
  "parse_with_formats manual_formats ''1.1.2024'' = Some (ymd2ord 2024 1 1) \<and>
   \<not> spec_literal_formats ''1.1.2024'' \<and>
   spec_literal_formats ''31.02.2024'' \<and>
   parse_with_formats manual_formats ''31.02.2024'' = None"
  by code_simp

text \<open>
  Claim C7, amended. The text is tried against \<open>%d.%m.%Y\<close>, \<open>%d/%m/%Y\<close> and
  \<open>%Y-%m-%d\<close> in this order and the first format that parses gives the date. A
  format parses a text exactly when the text is a day, a month and a year in the
  format's order with its separator, where the day and the month are texts their
  directive matches (one or two digits in the directive's range, not only two) and the
  year is four digits, and the three numbers are a calendar date, which is then the
  result. The three strings of the specification parse to 2024-01-01. A text that does
  not parse leaves conversation state, session and store as they are, and after
  \<open>manual\<close> was chosen the handler answers with the prompt for the format; a text
  that parses, after \<open>manual\<close> was chosen, is written to the draft and the
  conversation moves on (to the end date, or to the template selection when the user
  owns templates).
\<close>

theorem manual_date_formats:
  "parse_with_formats manual_formats s =
     (case strptime_date s fmt_dmy_dot of
        Inr d \<Rightarrow> Some d
      | Inl e \<Rightarrow>
          (case strptime_date s fmt_dmy_slash of
             Inr d \<Rightarrow> Some d
           | Inl e \<Rightarrow>
               (case strptime_date s fmt_ymd_dash of Inr d \<Rightarrow> Some d | Inl e \<Rightarrow> None))) \<and>
   (strptime_date s fmt_dmy_dot = Inr date \<longleftrightarrow>
      (\<exists>D M Y. s = D @ ''.'' @ M @ ''.'' @ Y \<and>
         directive_text Dir_d D \<and> directive_text Dir_m M \<and> directive_text Dir_Y Y \<and>
         make_date (number Y) (number M) (number D) = Inr date)) \<and>
   (strptime_date s fmt_dmy_slash = Inr date \<longleftrightarrow>
      (\<exists>D M Y. s = D @ ''/'' @ M @ ''/'' @ Y \<and>
         directive_text Dir_d D \<and> directive_text Dir_m M \<and> directive_text Dir_Y Y \<and>
         make_date (number Y) (number M) (number D) = Inr date)) \<and>
   (strptime_date s fmt_ymd_dash = Inr date \<longleftrightarrow>
      (\<exists>D M Y. s = Y @ ''-'' @ M @ ''-'' @ D \<and>
         directive_text Dir_d D \<and> directive_text Dir_m M \<and> directive_text Dir_Y Y \<and>
         make_date (number Y) (number M) (number D) = Inr date)) \<and>
   parse_with_formats manual_formats ''01.01.2024'' = Some (ymd2ord 2024 1 1) \<and>
   parse_with_formats manual_formats ''01/01/2024'' = Some (ymd2ord 2024 1 1) \<and>
   parse_with_formats manual_formats ''2024-01-01'' = Some (ymd2ord 2024 1 1) \<and>
   (parse_with_formats manual_formats (strip message_text) = None \<longrightarrow>
      (bs_conversation st = Some WAITING_START_DATE \<or>
       bs_conversation st = Some WAITING_END_DATE \<longrightarrow>
         process_update cfg user (today, TextMessage message_text) st = st) \<and>
      (upload ud = Some draft \<longrightarrow> up_waiting_manual_start draft \<longrightarrow>
         upload_start_date_manual today message_text ud db =
           \<lparr>result = Inr WAITING_START_DATE, replies = [BadStartDate],
            session = ud, store = db\<rparr>) \<and>
      (upload ud = Some draft \<longrightarrow> up_waiting_manual_end draft \<longrightarrow>
         upload_end_date_manual user_id message_text ud db =
           \<lparr>result = Inr WAITING_END_DATE, replies = [BadEndDate],
            session = ud, store = db\<rparr>)) \<and>
   (parse_with_formats manual_formats (strip message_text) = Some parsed \<longrightarrow>
      upload ud = Some draft \<longrightarrow>
      (up_waiting_manual_start draft \<longrightarrow> 0 < today \<longrightarrow> today + 1825 \<le> MAXORDINAL \<longrightarrow>
         result (upload_start_date_manual today message_text ud db) = Inr WAITING_END_DATE \<and>
         session (upload_start_date_manual today message_text ud db) =
           ud\<lparr>upload := Some (draft\<lparr>up_start_date := Some parsed,
                                     up_waiting_manual_start := False\<rparr>)\<rparr>) \<and>
      (up_waiting_manual_end draft \<longrightarrow> get_user_templates user_id db \<noteq> [] \<longrightarrow>
         result (upload_end_date_manual user_id message_text ud db) = Inr WAITING_TEMPLATE \<and>
         session (upload_end_date_manual user_id message_text ud db) =
           ud\<lparr>upload := Some (draft\<lparr>up_end_date := Some parsed,
                                     up_waiting_manual_end := False\<rparr>)\<rparr>))"
proof -
  have a: "parse_with_formats manual_formats s =
     (case strptime_date s fmt_dmy_dot of
        Inr d \<Rightarrow> Some d
      | Inl e \<Rightarrow>
          (case strptime_date s fmt_dmy_slash of
             Inr d \<Rightarrow> Some d
           | Inl e \<Rightarrow>
               (case strptime_date s fmt_ymd_dash of Inr d \<Rightarrow> Some d | Inl e \<Rightarrow> None)))"
    by (simp add: manual_formats_def split: sum.splits)
  have b: "strptime_date s fmt_dmy_dot = Inr date \<longleftrightarrow>
      (\<exists>D M Y. s = D @ ''.'' @ M @ ''.'' @ Y \<and>
         directive_text Dir_d D \<and> directive_text Dir_m M \<and> directive_text Dir_Y Y \<and>
         make_date (number Y) (number M) (number D) = Inr date)"
    unfolding fmt_dmy_dot_def by (rule strptime_date_dmy_iff[OF separators_not_digits(1)])
  have c: "strptime_date s fmt_dmy_slash = Inr date \<longleftrightarrow>
      (\<exists>D M Y. s = D @ ''/'' @ M @ ''/'' @ Y \<and>
         directive_text Dir_d D \<and> directive_text Dir_m M \<and> directive_text Dir_Y Y \<and>
         make_date (number Y) (number M) (number D) = Inr date)"
    unfolding fmt_dmy_slash_def by (rule strptime_date_dmy_iff[OF separators_not_digits(2)])
  have d: "strptime_date s fmt_ymd_dash = Inr date \<longleftrightarrow>
      (\<exists>D M Y. s = Y @ ''-'' @ M @ ''-'' @ D \<and>
         directive_text Dir_d D \<and> directive_text Dir_m M \<and> directive_text Dir_Y Y \<and>
         make_date (number Y) (number M) (number D) = Inr date)"
    unfolding fmt_ymd_dash_def by (rule strptime_date_ymd_iff[OF separators_not_digits(3)])
  have e: "parse_with_formats manual_formats ''01.01.2024'' = Some (ymd2ord 2024 1 1)"
    "parse_with_formats manual_formats ''01/01/2024'' = Some (ymd2ord 2024 1 1)"
    "parse_with_formats manual_formats ''2024-01-01'' = Some (ymd2ord 2024 1 1)"
    by code_simp+
  have f: "parse_with_formats manual_formats (strip message_text) = None \<longrightarrow>
      (bs_conversation st = Some WAITING_START_DATE \<or>
       bs_conversation st = Some WAITING_END_DATE \<longrightarrow>
         process_update cfg user (today, TextMessage message_text) st = st) \<and>
      (upload ud = Some draft \<longrightarrow> up_waiting_manual_start draft \<longrightarrow>
         upload_start_date_manual today message_text ud db =
           \<lparr>result = Inr WAITING_START_DATE, replies = [BadStartDate],
            session = ud, store = db\<rparr>) \<and>
      (upload ud = Some draft \<longrightarrow> up_waiting_manual_end draft \<longrightarrow>
         upload_end_date_manual user_id message_text ud db =
           \<lparr>result = Inr WAITING_END_DATE, replies = [BadEndDate],
            session = ud, store = db\<rparr>)"
    using manual_rejected_unchanged[of st message_text cfg user today]
    by (simp add: upload_start_date_manual_def upload_end_date_manual_def)
  have g: "parse_with_formats manual_formats (strip message_text) = Some parsed \<longrightarrow>
      upload ud = Some draft \<longrightarrow>
      (up_waiting_manual_start draft \<longrightarrow> 0 < today \<longrightarrow> today + 1825 \<le> MAXORDINAL \<longrightarrow>
         result (upload_start_date_manual today message_text ud db) = Inr WAITING_END_DATE \<and>
         session (upload_start_date_manual today message_text ud db) =
           ud\<lparr>upload := Some (draft\<lparr>up_start_date := Some parsed,
                                     up_waiting_manual_start := False\<rparr>)\<rparr>) \<and>
      (up_waiting_manual_end draft \<longrightarrow> get_user_templates user_id db \<noteq> [] \<longrightarrow>
         result (upload_end_date_manual user_id message_text ud db) = Inr WAITING_TEMPLATE \<and>
         session (upload_end_date_manual user_id message_text ud db) =
           ud\<lparr>upload := Some (draft\<lparr>up_end_date := Some parsed,
                                     up_waiting_manual_end := False\<rparr>)\<rparr>)"
  proof (intro impI conjI)
    assume h: "parse_with_formats manual_formats (strip message_text) = Some parsed"
      "upload ud = Some draft" "up_waiting_manual_start draft" "0 < today"
      "today + 1825 \<le> MAXORDINAL"
    from build_date_keyboard_in_range[OF h(4,5)] obtain keyboard where
      k: "build_date_keyboard today ''end'' False True True = Inr keyboard" by blast
    show "result (upload_start_date_manual today message_text ud db) = Inr WAITING_END_DATE"
      using h(1,2,3) k by (simp add: upload_start_date_manual_def Let_def)
    show "session (upload_start_date_manual today message_text ud db) =
           ud\<lparr>upload := Some (draft\<lparr>up_start_date := Some parsed,
                                     up_waiting_manual_start := False\<rparr>)\<rparr>"
      using h(1,2,3) k by (simp add: upload_start_date_manual_def Let_def)
  next
    assume h: "parse_with_formats manual_formats (strip message_text) = Some parsed"
      "upload ud = Some draft" "up_waiting_manual_end draft"
      "get_user_templates user_id db \<noteq> []"
    from build_templates_keyboard_8 obtain kb where
      k: "build_templates_keyboard (get_user_templates user_id db) 0 8 True = Inr kb" by blast
    show "result (upload_end_date_manual user_id message_text ud db) = Inr WAITING_TEMPLATE"
      using h k by (simp add: upload_end_date_manual_def Let_def)
    show "session (upload_end_date_manual user_id message_text ud db) =
           ud\<lparr>upload := Some (draft\<lparr>up_end_date := Some parsed,
                                     up_waiting_manual_end := False\<rparr>)\<rparr>"
      using h k by (simp add: upload_end_date_manual_def Let_def)
  qed
  from a b c d e f g show ?thesis by (intro conjI)
qed

theorem manual_date_formats_witness:
  "ymd2ord 2024 1 1 = 738886 \<and>
   parse_with_formats manual_formats ''01.01.2024'' = Some 738886 \<and>
   parse_with_formats manual_formats ''01/01/2024'' = Some 738886 \<and>
   parse_with_formats manual_formats ''2024-01-01'' = Some 738886 \<and>
   (\<exists>D M Y. ''1.1.2024'' = D @ ''.'' @ M @ ''.'' @ Y \<and>
      directive_text Dir_d D \<and> directive_text Dir_m M \<and> directive_text Dir_Y Y \<and>
      make_date (number Y) (number M) (number D) = Inr 738886) \<and>
   upload_start_date_manual 738900 ''32.01.2024''
      \<lparr>upload = Some (example_draft\<lparr>up_waiting_manual_start := True\<rparr>)\<rparr> example_db =
     \<lparr>result = Inr WAITING_START_DATE, replies = [BadStartDate],
      session = \<lparr>upload = Some (example_draft\<lparr>up_waiting_manual_start := True\<rparr>)\<rparr>,
      store = example_db\<rparr> \<and>
   process_update example_config example_user (738900, TextMessage ''32.01.2024'')
      \<lparr>bs_conversation = Some WAITING_END_DATE,
       bs_user_data = \<lparr>upload = Some (example_draft\<lparr>up_waiting_manual_end := True\<rparr>)\<rparr>,
       bs_store = example_db\<rparr> =
     \<lparr>bs_conversation = Some WAITING_END_DATE,
      bs_user_data = \<lparr>upload = Some (example_draft\<lparr>up_waiting_manual_end := True\<rparr>)\<rparr>,
      bs_store = example_db\<rparr> \<and>
   result (upload_start_date_manual 738900 ''01/01/2024''
      \<lparr>upload = Some (example_draft\<lparr>up_waiting_manual_start := True\<rparr>)\<rparr> example_db) =
     Inr WAITING_END_DATE \<and>
   session (upload_start_date_manual 738900 ''01/01/2024''
      \<lparr>upload = Some (example_draft\<lparr>up_waiting_manual_start := True\<rparr>)\<rparr> example_db) =
     \<lparr>upload = Some (example_draft\<lparr>up_start_date := Some 738886\<rparr>)\<rparr> \<and>
   result (upload_end_date_manual 501 ''2024-01-01''
      \<lparr>upload = Some (example_draft\<lparr>up_waiting_manual_end := True\<rparr>)\<rparr>
      example_db_with_template) = Inr WAITING_TEMPLATE"
proof -
  define ud1 where "ud1 = \<lparr>upload = Some (example_draft\<lparr>up_waiting_manual_start := True\<rparr>)\<rparr>"
  define ud2 where "ud2 = \<lparr>upload = Some (example_draft\<lparr>up_waiting_manual_end := True\<rparr>)\<rparr>"
  define st where "st = \<lparr>bs_conversation = Some WAITING_END_DATE, bs_user_data = ud2,
                          bs_store = example_db\<rparr>"
  have y: "ymd2ord 2024 1 1 = 738886" by code_simp
  have n: "parse_with_formats manual_formats (strip ''32.01.2024'') = None" by code_simp
  have p1: "parse_with_formats manual_formats (strip ''01/01/2024'') = Some 738886" by code_simp
  have p2: "parse_with_formats manual_formats (strip ''2024-01-01'') = Some 738886" by code_simp
  have q: "strptime_date ''1.1.2024'' fmt_dmy_dot = Inr 738886" by code_simp
  have u1: "upload ud1 = Some (example_draft\<lparr>up_waiting_manual_start := True\<rparr>)"
    "up_waiting_manual_start (example_draft\<lparr>up_waiting_manual_start := True\<rparr>)"
    by (simp_all add: ud1_def)
  have u2: "upload ud2 = Some (example_draft\<lparr>up_waiting_manual_end := True\<rparr>)"
    "up_waiting_manual_end (example_draft\<lparr>up_waiting_manual_end := True\<rparr>)"
    by (simp_all add: ud2_def)
  have c: "bs_conversation st = Some WAITING_START_DATE \<or>
           bs_conversation st = Some WAITING_END_DATE" by (simp add: st_def)
  have r: "0 < (738900::int)" "(738900::int) + 1825 \<le> MAXORDINAL"
    by (simp_all add: MAXORDINAL_def)
  have tm: "get_user_templates 501 example_db_with_template \<noteq> []"
    by (simp add: get_user_templates_def example_db_with_template_def example_db_def)
  note t1 = manual_date_formats[where s = "''1.1.2024''" and date = 738886
      and message_text = "''32.01.2024''" and st = st and ud = ud1
      and draft = "example_draft\<lparr>up_waiting_manual_start := True\<rparr>"
      and today = 738900 and db = example_db and cfg = example_config and user = example_user]
  note t2 = manual_date_formats[where message_text = "''01/01/2024''" and parsed = 738886
      and ud = ud1 and draft = "example_draft\<lparr>up_waiting_manual_start := True\<rparr>"
      and today = 738900 and db = example_db]
  note t3 = manual_date_formats[where message_text = "''2024-01-01''" and parsed = 738886
      and ud = ud2 and draft = "example_draft\<lparr>up_waiting_manual_end := True\<rparr>"
      and user_id = 501 and db = example_db_with_template]
  from t1 y have a: "parse_with_formats manual_formats ''01.01.2024'' = Some 738886"
    "parse_with_formats manual_formats ''01/01/2024'' = Some 738886"
    "parse_with_formats manual_formats ''2024-01-01'' = Some 738886" by simp_all
  from t1 q have b: "\<exists>D M Y. ''1.1.2024'' = D @ ''.'' @ M @ ''.'' @ Y \<and>
      directive_text Dir_d D \<and> directive_text Dir_m M \<and> directive_text Dir_Y Y \<and>
      make_date (number Y) (number M) (number D) = Inr 738886" by blast
  from t1 n u1 have d: "upload_start_date_manual 738900 ''32.01.2024'' ud1 example_db =
     \<lparr>result = Inr WAITING_START_DATE, replies = [BadStartDate],
      session = ud1, store = example_db\<rparr>" by blast
  from t1 n c have e: "process_update example_config example_user
      (738900, TextMessage ''32.01.2024'') st = st" by blast
  from t2 p1 u1 r have f:
    "result (upload_start_date_manual 738900 ''01/01/2024'' ud1 example_db) = Inr WAITING_END_DATE"
    "session (upload_start_date_manual 738900 ''01/01/2024'' ud1 example_db) =
       ud1\<lparr>upload := Some (example_draft\<lparr>up_waiting_manual_start := True,
                  up_start_date := Some 738886, up_waiting_manual_start := False\<rparr>)\<rparr>"
    by blast+
  from t3 p2 u2 tm have g:
    "result (upload_end_date_manual 501 ''2024-01-01'' ud2 example_db_with_template) =
       Inr WAITING_TEMPLATE" by blast
  have x: "example_draft\<lparr>up_waiting_manual_start := True,
                  up_start_date := Some 738886, up_waiting_manual_start := False\<rparr> =
           example_draft\<lparr>up_start_date := Some 738886\<rparr>"
    by (simp add: example_draft_def)
  from y a b d e f g show ?thesis
    unfolding ud1_def ud2_def st_def by (simp add: x)
qed

end
